theory Spec2Isabelle
  imports Main
begin

section \<open>Session store (backend/app/ai/sessions.py)\<close>

text \<open>
  Python values that matter to the chat core.  A JSON value is what \<^verbatim>\<open>json.loads\<close>
  returns; an object is a Python dict, kept as an association list in key order.
  A float is kept as its literal text, since no operation of the core computes with it.
\<close>

datatype json =
    JNull
  | JBool bool
  | JInt int
  | JFloat string
  | JStr string
  | JArr "json list"
  | JObj "(string \<times> json) list"

text \<open>
  One entry of the \<^verbatim>\<open>tool_calls\<close> list of an assistant message:
  \<^verbatim>\<open>{"id": .., "type": "function", "function": {"name": .., "arguments": ..}}\<close>.
\<close>

record tool_call_entry =
  call_id :: string
  call_type :: string
  function_name :: string
  function_arguments :: string

text \<open>
  A message dict.  The keys \<^verbatim>\<open>tool_calls\<close> and \<^verbatim>\<open>tool_call_id\<close> are optional:
  \<open>None\<close> means the key is absent.  The key \<^verbatim>\<open>content\<close> is always present and may hold
  Python's \<^verbatim>\<open>None\<close>.
\<close>

record message =
  role :: string
  content :: "string option"
  tool_calls :: "tool_call_entry list option"
  tool_call_id :: "string option"

text \<open>Times are instants of \<^verbatim>\<open>datetime.utcnow()\<close>, counted in microseconds.\<close>

type_synonym time = int

record ChatSession =
  session_id :: string
  user_id :: string
  messages :: "message list"
  created_at :: time
  last_activity :: time

text \<open>
  \<^verbatim>\<open>ChatSession.__init__\<close>: the identifier is \<^verbatim>\<open>str(uuid.uuid4())\<close>, taken as the
  parameter \<open>new_id\<close>; \<open>now\<close> is the clock.
\<close>

definition new_ChatSession :: "string \<Rightarrow> string \<Rightarrow> time \<Rightarrow> ChatSession" where
  "new_ChatSession new_id uid now =
     \<lparr>session_id = new_id, user_id = uid, messages = [], created_at = now, last_activity = now\<rparr>"

text \<open>
  \<^verbatim>\<open>ChatSession.add_message\<close>.  The key \<^verbatim>\<open>tool_calls\<close> is set only when the argument is
  truthy (a non-empty list).  After the append, a list of more than 21 entries becomes
  \<^verbatim>\<open>[self.messages[0]] + self.messages[-20:]\<close>.
\<close>

definition add_message ::
  "ChatSession \<Rightarrow> string \<Rightarrow> string option \<Rightarrow> tool_call_entry list option \<Rightarrow> time \<Rightarrow> ChatSession"
where
  "add_message s r c tcs now =
     (let msg = \<lparr>role = r, content = c,
                 tool_calls = (case tcs of None \<Rightarrow> None | Some [] \<Rightarrow> None | Some (t # ts) \<Rightarrow> Some (t # ts)),
                 tool_call_id = None\<rparr>;
          ms = messages s @ [msg]
      in s\<lparr>messages := (if length ms > 21 then [ms ! 0] @ drop (length ms - 20) ms else ms),
           last_activity := now\<rparr>)"

definition get_messages_for_api :: "ChatSession \<Rightarrow> message list" where
  "get_messages_for_api s = messages s"

text \<open>\<^verbatim>\<open>is_expired\<close> with its default of 24 hours.\<close>

definition hours :: "int \<Rightarrow> time" where
  "hours h = h * 3600000000"

definition is_expired :: "ChatSession \<Rightarrow> time \<Rightarrow> bool" where
  "is_expired s now = (now > last_activity s + hours 24)"

text \<open>The module-level dict \<^verbatim>\<open>_sessions\<close>.\<close>

type_synonym sessions = "string \<rightharpoonup> ChatSession"

definition cleanup_expired_sessions :: "sessions \<Rightarrow> time \<Rightarrow> sessions" where
  "cleanup_expired_sessions ss now =
     (\<lambda>sid. case ss sid of None \<Rightarrow> None
                         | Some s \<Rightarrow> if \<not> is_expired s now then Some s else None)"

text \<open>
  \<^verbatim>\<open>get_or_create_session\<close>.  The optional \<^verbatim>\<open>session_id\<close> is tested for truthiness, so
  the empty string is treated as \<^verbatim>\<open>None\<close>.  The clock is read as one instant \<open>now\<close>
  for the whole call.  The result is the returned session and the updated store.
\<close>

definition get_or_create_session ::
  "sessions \<Rightarrow> string \<Rightarrow> string option \<Rightarrow> string \<Rightarrow> time \<Rightarrow> ChatSession \<times> sessions"
where
  "get_or_create_session ss uid sid new_id now =
     (let ss1 = cleanup_expired_sessions ss now;
          found = (case sid of
                     None \<Rightarrow> None
                   | Some i \<Rightarrow>
                       if i = [] then None
                       else (case ss1 i of
                               None \<Rightarrow> None
                             | Some s \<Rightarrow> if user_id s = uid \<and> \<not> is_expired s now then Some s else None))
      in case found of
           Some s \<Rightarrow> (s, ss1)
         | None \<Rightarrow> (let s = new_ChatSession new_id uid now in (s, ss1(session_id s \<mapsto> s))))"

definition get_session :: "sessions \<Rightarrow> string \<Rightarrow> ChatSession option" where
  "get_session ss sid = ss sid"

definition delete_session :: "sessions \<Rightarrow> string \<Rightarrow> bool \<times> sessions" where
  "delete_session ss sid = (if sid \<in> dom ss then (True, ss(sid := None)) else (False, ss))"

section \<open>Tool registry (backend/app/ai/tools.py)\<close>

text \<open>
  Exceptions carry the text that \<^verbatim>\<open>str(e)\<close> gives.
\<close>

datatype exn =
    ValueError string
  | AttributeError string
  | TypeError string
  | IndexError string
  | JSONDecodeError string
  | APIError string
  | HandlerError string

fun str_exn :: "exn \<Rightarrow> string" where
  "str_exn (ValueError m) = m"
| "str_exn (AttributeError m) = m"
| "str_exn (TypeError m) = m"
| "str_exn (IndexError m) = m"
| "str_exn (JSONDecodeError m) = m"
| "str_exn (APIError m) = m"
| "str_exn (HandlerError m) = m"

text \<open>
  A tool function of \<^verbatim>\<open>tools.py\<close>, once its keyword arguments are bound: it receives
  the \<^verbatim>\<open>user_id\<close>, the other keyword arguments, and the database \<open>'w\<close> it queries; it
  returns its text or raises, and leaves a database behind in both cases.  The bodies are
  SQL against the task store and are parameters here.
\<close>

type_synonym 'w handler = "string \<Rightarrow> (string \<times> json) list \<Rightarrow> 'w \<Rightarrow> (exn + string) \<times> 'w"

record 'w tool_impls =
  create_task :: "'w handler"
  list_tasks :: "'w handler"
  update_task :: "'w handler"
  delete_task :: "'w handler"
  mark_task_complete :: "'w handler"

text \<open>The dict \<^verbatim>\<open>TOOL_HANDLERS\<close> with its five keys; \<^verbatim>\<open>.get\<close> is the lookup.\<close>

definition TOOL_HANDLERS :: "'w tool_impls \<Rightarrow> string \<Rightarrow> 'w handler option" where
  "TOOL_HANDLERS impls name =
     (if name = ''create_task'' then Some (create_task impls)
      else if name = ''list_tasks'' then Some (list_tasks impls)
      else if name = ''update_task'' then Some (update_task impls)
      else if name = ''delete_task'' then Some (delete_task impls)
      else if name = ''mark_task_complete'' then Some (mark_task_complete impls)
      else None)"

section \<open>Chat stream processing (backend/app/ai/agent.py)\<close>

definition SYSTEM_PROMPT :: string where
  "SYSTEM_PROMPT =
     ''You are TaskFlow AI, a helpful task management assistant.'' @ [CHR 0x0A] @ [CHR 0x0A]
     @ ''You help users manage their tasks through natural conversation. You MUST use your available tools to perform actions - do NOT just say you will do something, actually call the tool to do it.''
     @ [CHR 0x0A] @ [CHR 0x0A] @ ''**Available Tools:**'' @ [CHR 0x0A] @ ''- '' @ [CHR 0x60]
     @ ''create_task'' @ [CHR 0x60]
     @ '': Use this to add new tasks. Extract the title from what the user says.'' @ [CHR 0x0A]
     @ ''- '' @ [CHR 0x60] @ ''list_tasks'' @ [CHR 0x60]
     @ '': Use this when users ask to see their tasks, what'' @ [CHR 0x27]
     @ ''s pending, or check their to-do list.'' @ [CHR 0x0A] @ ''- '' @ [CHR 0x60]
     @ ''update_task'' @ [CHR 0x60]
     @ '': Use this to change task details like title, description, priority, or status.''
     @ [CHR 0x0A] @ ''- '' @ [CHR 0x60] @ ''delete_task'' @ [CHR 0x60]
     @ '': Use this to remove tasks the user no longer needs.'' @ [CHR 0x0A] @ ''- '' @ [CHR 0x60]
     @ ''mark_task_complete'' @ [CHR 0x60]
     @ '': Use this when users say they finished or completed something.'' @ [CHR 0x0A]
     @ [CHR 0x0A] @ ''**Guidelines:**'' @ [CHR 0x0A]
     @ ''1. ALWAYS use the appropriate tool when the user asks to add, view, update, delete, or complete tasks''
     @ [CHR 0x0A]
     @ ''2. When adding a task, extract the title and any details (priority, due date) mentioned''
     @ [CHR 0x0A] @ ''3. Priority mapping: '' @ [CHR 0x22] @ ''urgent'' @ [CHR 0x22] @ '', ''
     @ [CHR 0x22] @ ''important'' @ [CHR 0x22] @ '', '' @ [CHR 0x22] @ ''asap'' @ [CHR 0x22]
     @ '' = HIGH; normal = MEDIUM; '' @ [CHR 0x22] @ ''when you can'' @ [CHR 0x22] @ '', ''
     @ [CHR 0x22] @ ''low priority'' @ [CHR 0x22] @ '' = LOW'' @ [CHR 0x0A] @ ''4. If a user''
     @ [CHR 0x27] @ ''s request is ambiguous, ask for clarification'' @ [CHR 0x0A]
     @ ''5. Celebrate when users complete tasks! '' @ [CHR 0xEF] @ [CHR 0xA3] @ [CHR 0xBF]
     @ [CHR 0xC3] @ [CHR 0xBC] @ [CHR 0xC3] @ [CHR 0xA9] @ [CHR 0xC3] @ [CHR 0xA2] @ [CHR 0x0A]
     @ ''6. Keep responses concise but informative'' @ [CHR 0x0A] @ [CHR 0x0A]
     @ ''**CRITICAL**: When you decide to use a tool, you MUST actually call it. Do not describe what you would do - DO IT by calling the tool.''"

text \<open>The SSE events, before their serialisation by \<^verbatim>\<open>json.dumps\<close>.\<close>

datatype event =
    ContentEv string "string option"
  | ToolCallEv string string json
  | ErrorEv string
  | DoneEv

text \<open>The chunks of the completion stream, as far as the loop reads them.\<close>

record function_delta =
  fn_name :: "string option"
  fn_arguments :: "string option"

record tool_call_delta =
  tc_index :: "int option"
  tc_id :: "string option"
  tc_function :: "function_delta option"

record delta =
  delta_content :: "string option"
  delta_tool_calls :: "tool_call_delta list option"

record chunk =
  choices :: "delta list"

text \<open>
  One call of \<^verbatim>\<open>client.chat.completions.create\<close> with its iteration: the call raises,
  or it gives a stream of chunks that ends or raises after them.  The arguments of the
  call are evaluated inside the \<^verbatim>\<open>try\<close>, so a raise of theirs (the read of
  \<^verbatim>\<open>settings.AI_MODEL\<close>) is a raise of the call.
\<close>

datatype completion =
    CreateRaises exn
  | Stream "chunk list" "exn option"

text \<open>The entries of \<^verbatim>\<open>current_tools\<close> and of \<^verbatim>\<open>tool_calls_data\<close>.\<close>

record tool_data =
  td_id :: string
  td_name :: string
  td_arguments :: string

text \<open>
  What the turn takes from outside: the model behind the gateway (its answer to a
  message list), \<^verbatim>\<open>json.loads\<close>, the tool bodies, the identifier
  \<^verbatim>\<open>uuid4\<close> would draw, and the clock at the request and at the final reply.
\<close>

record 'w env =
  gateway :: "message list \<Rightarrow> completion"
  json_loads :: "string \<Rightarrow> exn + json"
  impls :: "'w tool_impls"
  uuid4 :: string
  t_request :: time
  t_reply :: time

text \<open>Truthiness of an optional string: neither \<^verbatim>\<open>None\<close> nor empty.\<close>

definition truthy :: "string option \<Rightarrow> bool" where
  "truthy x = (case x of None \<Rightarrow> False | Some s \<Rightarrow> s \<noteq> [])"

text \<open>
  The read of \<^verbatim>\<open>settings.OPENAI_API_KEY\<close>.  The class \<^verbatim>\<open>Settings\<close> of
  \<^verbatim>\<open>core/config.py\<close> declares \<^verbatim>\<open>DATABASE_URL\<close>, \<^verbatim>\<open>BETTER_AUTH_SECRET\<close>, \<^verbatim>\<open>APP_NAME\<close>,
  \<^verbatim>\<open>DEBUG\<close>, \<^verbatim>\<open>FRONTEND_URL\<close> and \<^verbatim>\<open>JWT_ALGORITHM\<close>, and ignores every other variable of
  the environment (\<^verbatim>\<open>extra = "ignore"\<close>).  It has no attribute \<^verbatim>\<open>OPENAI_API_KEY\<close>, so
  the read raises AttributeError.
\<close>

definition settings_OPENAI_API_KEY :: "exn + string option" where
  "settings_OPENAI_API_KEY =
     Inl (AttributeError ([CHR 0x27] @ ''Settings'' @ [CHR 0x27] @ '' object has no attribute ''
                          @ [CHR 0x27] @ ''OPENAI_API_KEY'' @ [CHR 0x27]))"

text \<open>
  \<^verbatim>\<open>get_openai_client\<close> on the module variable \<^verbatim>\<open>_client\<close>, which is \<open>True\<close> once a
  client exists.  The function is the only place of the module that sets the variable.
\<close>

definition get_openai_client :: "bool \<Rightarrow> exn + bool" where
  "get_openai_client client =
     (if \<not> client then
        (case settings_OPENAI_API_KEY of
           Inl ex \<Rightarrow> Inl ex
         | Inr key \<Rightarrow>
             if \<not> truthy key then Inl (ValueError ''OPENAI_API_KEY is not set'')
             else Inr True)
      else Inr client)"

text \<open>
  \<^verbatim>\<open>current_tools\<close> is a dict from the index of a tool call to its collected fields.  A
  Python dict keeps its keys in the order of their first insertion, which is the order
  of \<^verbatim>\<open>current_tools.values()\<close>, so it is an association list here: a new key goes to
  the end, an update keeps the place.
\<close>

type_synonym current_tools = "(int \<times> tool_data) list"

definition dict_modify :: "int \<Rightarrow> (tool_data \<Rightarrow> tool_data) \<Rightarrow> current_tools \<Rightarrow> current_tools" where
  "dict_modify i f cur = map (\<lambda>(k, v). if k = i then (k, f v) else (k, v)) cur"

text \<open>The body of \<^verbatim>\<open>for tc in delta.tool_calls\<close>.\<close>

definition collect_tool_call :: "current_tools \<Rightarrow> tool_call_delta \<Rightarrow> current_tools" where
  "collect_tool_call cur tc =
     (case tc_index tc of
        None \<Rightarrow> cur
      | Some i \<Rightarrow>
          (let cur1 = (if i \<notin> fst ` set cur
                       then cur @ [(i, \<lparr>td_id = [], td_name = [], td_arguments = []\<rparr>)]
                       else cur);
               cur2 = (if truthy (tc_id tc)
                       then dict_modify i (\<lambda>t. t\<lparr>td_id := the (tc_id tc)\<rparr>) cur1
                       else cur1)
           in case tc_function tc of
                None \<Rightarrow> cur2
              | Some f \<Rightarrow>
                  (let cur3 = (if truthy (fn_name f)
                               then dict_modify i (\<lambda>t. t\<lparr>td_name := the (fn_name f)\<rparr>) cur2
                               else cur2)
                   in if truthy (fn_arguments f)
                      then dict_modify i (\<lambda>t. t\<lparr>td_arguments := td_arguments t @ the (fn_arguments f)\<rparr>) cur3
                      else cur3)))"

text \<open>
  The body of \<^verbatim>\<open>async for chunk in stream\<close> on one chunk: \<^verbatim>\<open>chunk.choices[0]\<close> raises
  IndexError on an empty list.  The result is the events yielded, the content and the
  collected tool calls.
\<close>

definition process_chunk ::
  "string \<Rightarrow> current_tools \<Rightarrow> chunk \<Rightarrow> exn + (event list \<times> string \<times> current_tools)"
where
  "process_chunk full_content cur c =
     (case choices c of
        [] \<Rightarrow> Inl (IndexError ''list index out of range'')
      | d # _ \<Rightarrow>
          (let (evs, fc) = (if truthy (delta_content d)
                            then ([ContentEv (the (delta_content d)) None],
                                  full_content @ the (delta_content d))
                            else ([], full_content));
               cur' = (case delta_tool_calls d of
                         None \<Rightarrow> cur
                       | Some tcs \<Rightarrow> foldl collect_tool_call cur tcs)
           in Inr (evs, fc, cur')))"

text \<open>
  The whole \<^verbatim>\<open>async for\<close>: the events yielded so far stay yielded when a chunk, or the
  stream after its last chunk, raises.
\<close>

fun consume_stream ::
  "chunk list \<Rightarrow> exn option \<Rightarrow> event list \<Rightarrow> string \<Rightarrow> current_tools
     \<Rightarrow> exn option \<times> event list \<times> string \<times> current_tools"
where
  "consume_stream [] err evs fc cur = (err, evs, fc, cur)"
| "consume_stream (c # cs) err evs fc cur =
     (case process_chunk fc cur c of
        Inl e \<Rightarrow> (Some e, evs, fc, cur)
      | Inr (evs', fc', cur') \<Rightarrow> consume_stream cs err (evs @ evs') fc' cur')"

text \<open>
  The call \<^verbatim>\<open>handler(user_id=user_id, **args)\<close>.  Python raises TypeError at the call when
  \<^verbatim>\<open>args\<close> is not a mapping, and when it holds the key \<^verbatim>\<open>user_id\<close> a second time; the
  function is not entered then.  \<open>name\<close> is the name of the tool function.
\<close>

definition funcstr :: "string \<Rightarrow> string" where
  "funcstr name = ''app.ai.tools.'' @ name @ ''()''"

fun type_name :: "json \<Rightarrow> string" where
  "type_name JNull = ''NoneType''"
| "type_name (JBool _) = ''bool''"
| "type_name (JInt _) = ''int''"
| "type_name (JFloat _) = ''float''"
| "type_name (JStr _) = ''str''"
| "type_name (JArr _) = ''list''"
| "type_name (JObj _) = ''dict''"

definition call_with_user_id ::
  "'w handler \<Rightarrow> string \<Rightarrow> string \<Rightarrow> json \<Rightarrow> 'w \<Rightarrow> (exn + string) \<times> 'w"
where
  "call_with_user_id h name uid args w =
     (case args of
        JObj kvs \<Rightarrow>
          if ''user_id'' \<in> fst ` set kvs
          then (Inl (TypeError (funcstr name @ '' got multiple values for keyword argument ''
                                @ [CHR 0x27] @ ''user_id'' @ [CHR 0x27])), w)
          else h uid kvs w
      | _ \<Rightarrow> (Inl (TypeError (funcstr name @ '' argument after ** must be a mapping, not ''
                              @ type_name args)), w))"

text \<open>The two texts of a failed tool call, with the bytes the source file has.\<close>

definition cross_mark :: string where
  "cross_mark = [CHR 0xE2, CHR 0x80, CHR 0x9A, CHR 0xC3, CHR 0xB9, CHR 0xC3, CHR 0xA5]"

definition unknown_tool_text :: "string \<Rightarrow> string" where
  "unknown_tool_text name = cross_mark @ '' Unknown tool: '' @ name"

definition tool_error_text :: "exn \<Rightarrow> string" where
  "tool_error_text e = cross_mark @ '' Tool execution error: '' @ str_exn e"

text \<open>
  The inner \<^verbatim>\<open>try\<close> of the tool loop: every exception of the lookup, of the parse and
  of the handler becomes the text of the result.
\<close>

definition execute_tool :: "'w env \<Rightarrow> string \<Rightarrow> tool_data \<Rightarrow> 'w \<Rightarrow> string \<times> 'w" where
  "execute_tool e uid tc w =
     (case TOOL_HANDLERS (impls e) (td_name tc) of
        Some h \<Rightarrow>
          (case json_loads e (td_arguments tc) of
             Inl ex \<Rightarrow> (tool_error_text ex, w)
           | Inr args \<Rightarrow>
               (case call_with_user_id h (td_name tc) uid args w of
                  (Inl ex, w') \<Rightarrow> (tool_error_text ex, w')
                | (Inr result, w') \<Rightarrow> (result, w')))
      | None \<Rightarrow> (unknown_tool_text (td_name tc), w))"

text \<open>
  The state of one turn: the session, the local list \<^verbatim>\<open>messages\<close>, the events yielded
  so far, the database, and the message lists sent to the gateway so far.
\<close>

record 'w turn =
  ts_session :: ChatSession
  ts_messages :: "message list"
  ts_events :: "event list"
  ts_world :: "'w"
  ts_requests :: "message list list"

text \<open>
  \<^verbatim>\<open>for tc in tool_calls_data\<close>: the \<^verbatim>\<open>tool_call\<close> event parses the arguments outside
  the inner \<^verbatim>\<open>try\<close>, so a parse error leaves the loop as an exception.
\<close>

fun dispatch_tools :: "'w env \<Rightarrow> string \<Rightarrow> tool_data list \<Rightarrow> 'w turn \<Rightarrow> exn option \<times> 'w turn" where
  "dispatch_tools e uid [] st = (None, st)"
| "dispatch_tools e uid (tc # tcs) st =
     (case json_loads e (td_arguments tc) of
        Inl ex \<Rightarrow> (Some ex, st)
      | Inr args \<Rightarrow>
          (let st1 = st\<lparr>ts_events := ts_events st @ [ToolCallEv (td_id tc) (td_name tc) args]\<rparr>;
               (result, w') = execute_tool e uid tc (ts_world st1);
               st2 = st1\<lparr>ts_world := w',
                         ts_messages := ts_messages st1 @
                           [\<lparr>role = ''tool'', content = Some result, tool_calls = None,
                             tool_call_id = Some (td_id tc)\<rparr>]\<rparr>
           in dispatch_tools e uid tcs st2))"

definition assistant_tool_message :: "string \<Rightarrow> tool_data list \<Rightarrow> message" where
  "assistant_tool_message full_content tool_calls_data =
     \<lparr>role = ''assistant'',
      content = (if full_content \<noteq> [] then Some full_content else None),
      tool_calls = Some (map (\<lambda>tc. \<lparr>call_id = td_id tc, call_type = ''function'',
                                      function_name = td_name tc,
                                      function_arguments = td_arguments tc\<rparr>) tool_calls_data),
      tool_call_id = None\<rparr>"

text \<open>
  One iteration of \<^verbatim>\<open>for iteration in range(max_iterations)\<close>.  \<open>True\<close> in the result
  means that the loop goes on, \<open>False\<close> that it left by \<^verbatim>\<open>break\<close>.
\<close>

definition run_round :: "'w env \<Rightarrow> string \<Rightarrow> 'w turn \<Rightarrow> bool \<times> 'w turn" where
  "run_round e uid st =
     (let st0 = st\<lparr>ts_requests := ts_requests st @ [ts_messages st]\<rparr>
      in case gateway e (ts_messages st) of
           CreateRaises ex \<Rightarrow> (False, st0\<lparr>ts_events := ts_events st0 @ [ErrorEv (str_exn ex)]\<rparr>)
         | Stream chunks err \<Rightarrow>
             (case consume_stream chunks err [] [] [] of
                (Some ex, evs, fc, cur) \<Rightarrow>
                  (False, st0\<lparr>ts_events := ts_events st0 @ evs @ [ErrorEv (str_exn ex)]\<rparr>)
              | (None, evs, full_content, cur) \<Rightarrow>
                  (let st1 = st0\<lparr>ts_events := ts_events st0 @ evs\<rparr>;
                       tool_calls_data = map snd cur
                   in if tool_calls_data = []
                      then (False, st1\<lparr>ts_session :=
                              add_message (ts_session st1) ''assistant'' (Some full_content) None (t_reply e)\<rparr>)
                      else
                        (let st2 = st1\<lparr>ts_messages := ts_messages st1 @
                                         [assistant_tool_message full_content tool_calls_data]\<rparr>
                         in case dispatch_tools e uid tool_calls_data st2 of
                              (Some ex, st3) \<Rightarrow>
                                (False, st3\<lparr>ts_events := ts_events st3 @ [ErrorEv (str_exn ex)]\<rparr>)
                            | (None, st3) \<Rightarrow> (True, st3)))))"

text \<open>The loop itself, on the number of iterations that remain.\<close>

fun tool_loop :: "'w env \<Rightarrow> string \<Rightarrow> nat \<Rightarrow> 'w turn \<Rightarrow> 'w turn" where
  "tool_loop e uid 0 st = st"
| "tool_loop e uid (Suc n) st =
     (case run_round e uid st of
        (True, st') \<Rightarrow> tool_loop e uid n st'
      | (False, st') \<Rightarrow> st')"

definition max_iterations :: nat where
  "max_iterations = 5"

text \<open>
  The module state: the session store, whether \<^verbatim>\<open>_client\<close> is set, and the database.
\<close>

record 'w global =
  g_sessions :: sessions
  g_client :: bool
  g_world :: "'w"

text \<open>
  What a call of \<^verbatim>\<open>process_chat_stream\<close> leaves: the events in the order of their
  \<^verbatim>\<open>yield\<close>, the module state, and the state of the turn when the generator ended
  (\<open>None\<close> when it ended before it had a session), and the exception that left the
  generator, if one did.  The first \<^verbatim>\<open>try\<close> catches ValueError only: any other
  exception of \<^verbatim>\<open>get_openai_client\<close> leaves the generator before its first
  \<^verbatim>\<open>yield\<close>.  The session object is shared with the store, which holds it under its
  \<^verbatim>\<open>session_id\<close>.
\<close>

record 'w outcome =
  out_events :: "event list"
  out_global :: "'w global"
  out_turn :: "'w turn option"
  out_raised :: "exn option"

definition process_chat_stream ::
  "'w env \<Rightarrow> 'w global \<Rightarrow> string \<Rightarrow> string \<Rightarrow> string option \<Rightarrow> 'w outcome"
where
  "process_chat_stream e g msg uid sid =
     (case get_openai_client (g_client g) of
        Inl ex \<Rightarrow>
          (case ex of
             ValueError m \<Rightarrow>
               \<lparr>out_events = [ErrorEv (''AI features not available: '' @ str_exn ex), DoneEv],
                out_global = g, out_turn = None, out_raised = None\<rparr>
           | _ \<Rightarrow>
               \<lparr>out_events = [], out_global = g, out_turn = None, out_raised = Some ex\<rparr>)
      | Inr client \<Rightarrow>
          (let (s0, ss) = get_or_create_session (g_sessions g) uid sid (uuid4 e) (t_request e);
               s1 = add_message s0 ''user'' (Some msg) None (t_request e);
               st = \<lparr>ts_session = s1,
                     ts_messages = \<lparr>role = ''system'', content = Some SYSTEM_PROMPT,
                                    tool_calls = None, tool_call_id = None\<rparr>
                                   # get_messages_for_api s1,
                     ts_events = [ContentEv [] (Some (session_id s1))],
                     ts_world = g_world g,
                     ts_requests = []\<rparr>;
               st' = tool_loop e uid max_iterations st
           in \<lparr>out_events = ts_events st' @ [DoneEv],
               out_global = \<lparr>g_sessions = ss(session_id s1 \<mapsto> ts_session st'),
                              g_client = client, g_world = ts_world st'\<rparr>,
               out_turn = Some st', out_raised = None\<rparr>))"

definition stored_ok :: "ChatSession \<Rightarrow> bool" where
  "stored_ok s = list_all (\<lambda>m. (role m = ''user'' \<or> role m = ''assistant'')
                              \<and> tool_calls m = None \<and> tool_call_id m = None) (messages s)"

fun is_content :: "event \<Rightarrow> bool" where
  "is_content (ContentEv _ _) = True"
| "is_content _ = False"

fun is_tool_call :: "event \<Rightarrow> bool" where
  "is_tool_call (ToolCallEv _ _ _) = True"
| "is_tool_call _ = False"

fun is_error :: "event \<Rightarrow> bool" where
  "is_error (ErrorEv _) = True"
| "is_error _ = False"

definition gateway_raises :: "'w env \<Rightarrow> message list \<Rightarrow> exn option" where
  "gateway_raises e ms =
     (case gateway e ms of
        CreateRaises ex \<Rightarrow> Some ex
      | Stream chunks err \<Rightarrow> fst (consume_stream chunks err [] [] []))"

fun tool_results :: "'w env \<Rightarrow> string \<Rightarrow> tool_data list \<Rightarrow> 'w \<Rightarrow> string list \<times> 'w" where
  "tool_results e uid [] w = ([], w)"
| "tool_results e uid (tc # tcs) w =
     (let (r, w') = execute_tool e uid tc w;
          (rs, w'') = tool_results e uid tcs w'
      in (r # rs, w''))"

definition tool_message :: "tool_data \<Rightarrow> string \<Rightarrow> message" where
  "tool_message tc result =
     \<lparr>role = ''tool'', content = Some result, tool_calls = None, tool_call_id = Some (td_id tc)\<rparr>"

definition parses :: "'w env \<Rightarrow> tool_data \<Rightarrow> bool" where
  "parses e tc = (case json_loads e (td_arguments tc) of Inl _ \<Rightarrow> False | Inr _ \<Rightarrow> True)"

definition tool_call_event :: "'w env \<Rightarrow> tool_data \<Rightarrow> event" where
  "tool_call_event e tc =
     ToolCallEv (td_id tc) (td_name tc)
       (case json_loads e (td_arguments tc) of Inl _ \<Rightarrow> JNull | Inr a \<Rightarrow> a)"

text \<open>
  Concrete inputs.  The database of the examples is the log of the handler calls that
  reached a tool body: the \<^verbatim>\<open>user_id\<close> and the keyword arguments of each.
\<close>

type_synonym call_log = "(string \<times> (string \<times> json) list) list"

definition recording_handler :: "string \<Rightarrow> call_log handler" where
  "recording_handler txt uid kvs w = (Inr txt, w @ [(uid, kvs)])"

definition failing_handler :: "call_log handler" where
  "failing_handler uid kvs w = (Inl (HandlerError ''connection refused''), w @ [(uid, kvs)])"

definition example_impls :: "call_log tool_impls" where
  "example_impls =
     \<lparr>create_task = recording_handler ''created'',
      list_tasks = recording_handler ''listed'',
      update_task = failing_handler,
      delete_task = recording_handler ''deleted'',
      mark_task_complete = recording_handler ''completed''\<rparr>"

definition title_args :: string where
  "title_args = ''{'' @ [CHR 0x22] @ ''title'' @ [CHR 0x22] @ '': '' @ [CHR 0x22] @ ''milk'' @ [CHR 0x22] @ ''}''"

definition spoofed_args :: string where
  "spoofed_args = ''{'' @ [CHR 0x22] @ ''title'' @ [CHR 0x22] @ '': '' @ [CHR 0x22] @ ''milk'' @ [CHR 0x22]
                  @ '', '' @ [CHR 0x22] @ ''user_id'' @ [CHR 0x22] @ '': '' @ [CHR 0x22] @ ''mallory'' @ [CHR 0x22] @ ''}''"

definition example_loads :: "string \<Rightarrow> exn + json" where
  "example_loads s =
     (if s = ''{}'' then Inr (JObj [])
      else if s = title_args then Inr (JObj [(''title'', JStr ''milk'')])
      else if s = spoofed_args
        then Inr (JObj [(''title'', JStr ''milk''), (''user_id'', JStr ''mallory'')])
      else Inl (JSONDecodeError ''Expecting value: line 1 column 1 (char 0)''))"

definition content_chunk :: "string \<Rightarrow> chunk" where
  "content_chunk c = \<lparr>choices = [\<lparr>delta_content = Some c, delta_tool_calls = None\<rparr>]\<rparr>"

definition tool_chunk :: "int \<Rightarrow> string \<Rightarrow> string \<Rightarrow> string \<Rightarrow> chunk" where
  "tool_chunk i cid name args =
     \<lparr>choices = [\<lparr>delta_content = None,
                  delta_tool_calls = Some [\<lparr>tc_index = Some i, tc_id = Some cid,
                     tc_function = Some \<lparr>fn_name = Some name, fn_arguments = Some args\<rparr>\<rparr>]\<rparr>]\<rparr>"

definition example_env :: "(message list \<Rightarrow> completion) \<Rightarrow> call_log env" where
  "example_env model =
     \<lparr>gateway = model, json_loads = example_loads,
      impls = example_impls, uuid4 = ''session-1'', t_request = 0, t_reply = 1\<rparr>"

text \<open>
  Two module states without sessions: \<open>fresh_global\<close> is the module after its import,
  \<open>empty_global\<close> is the module once \<^verbatim>\<open>_client\<close> has been set from outside, as a test
  does.
\<close>

definition fresh_global :: "call_log global" where
  "fresh_global = \<lparr>g_sessions = Map.empty, g_client = False, g_world = []\<rparr>"

definition empty_global :: "call_log global" where
  "empty_global = \<lparr>g_sessions = Map.empty, g_client = True, g_world = []\<rparr>"

text \<open>Four models: a plain answer, one tool call and then an answer, a tool call in
  every round, and a gateway that cannot be reached.\<close>

definition plain_model :: "message list \<Rightarrow> completion" where
  "plain_model ms = Stream [content_chunk ''Hello''] None"

definition tool_then_answer :: "string \<Rightarrow> string \<Rightarrow> message list \<Rightarrow> completion" where
  "tool_then_answer name args ms =
     (if role (last ms) \<noteq> ''tool'' then Stream [tool_chunk 0 ''call_1'' name args] None
      else Stream [content_chunk ''Added''] None)"

definition always_tool_model :: "message list \<Rightarrow> completion" where
  "always_tool_model ms = Stream [tool_chunk 0 ''call_1'' ''list_tasks'' ''{}''] None"

definition unreachable_model :: "message list \<Rightarrow> completion" where
  "unreachable_model ms = CreateRaises (APIError ''Connection error.'')"

definition system_message :: message where
  "system_message = \<lparr>role = ''system'', content = Some SYSTEM_PROMPT, tool_calls = None, tool_call_id = None\<rparr>"

text \<open>The number of calls of the gateway in one turn.\<close>

definition model_calls :: "'w outcome \<Rightarrow> nat" where
  "model_calls out = (case out_turn out of None \<Rightarrow> 0 | Some st \<Rightarrow> length (ts_requests st))"

text \<open>The answer of the model to a message list asks for tools, with arguments that parse.\<close>

definition requests_tool_call :: "'w env \<Rightarrow> message list \<Rightarrow> bool" where
  "requests_tool_call e ms =
     (case gateway e ms of
        CreateRaises _ \<Rightarrow> False
      | Stream chunks err \<Rightarrow>
          (case consume_stream chunks err [] [] [] of
             (Some _, _) \<Rightarrow> False
           | (None, evs, fc, cur) \<Rightarrow> cur \<noteq> [] \<and> list_all (parses e) (map snd cur)))"

definition alice_session :: ChatSession where
  "alice_session =
     \<lparr>session_id = ''session-1'', user_id = ''alice'',
      messages = [\<lparr>role = ''user'', content = Some ''add milk'', tool_calls = None, tool_call_id = None\<rparr>,
                  \<lparr>role = ''assistant'', content = Some ''Added'', tool_calls = None, tool_call_id = None\<rparr>],
      created_at = 0, last_activity = 0\<rparr>"

definition example_store :: sessions where
  "example_store = [''session-1'' \<mapsto> alice_session]"

definition resumed_global :: "call_log global" where
  "resumed_global = \<lparr>g_sessions = example_store, g_client = True, g_world = []\<rparr>"

definition interrupted_model :: "message list \<Rightarrow> completion" where
  "interrupted_model ms =
     (if role (last ms) \<noteq> ''tool'' then Stream [tool_chunk 0 ''call_1'' ''list_tasks'' ''{}''] None
      else Stream [content_chunk ''You have''] (Some (APIError ''Connection error.'')))"

text \<open>
  What one answer of the model holds once its stream is read to the end: the content
  events, the content, and the tool calls in the order of \<^verbatim>\<open>current_tools.values()\<close>.
\<close>

definition round_reply :: "'w env \<Rightarrow> message list \<Rightarrow> event list \<times> string \<times> tool_data list" where
  "round_reply e ms =
     (case gateway e ms of
        CreateRaises _ \<Rightarrow> ([], [], [])
      | Stream chunks err \<Rightarrow>
          (case consume_stream chunks err [] [] [] of
             (_, evs, fc, cur) \<Rightarrow> (evs, fc, map snd cur)))"

definition round_content :: "'w env \<Rightarrow> message list \<Rightarrow> string" where
  "round_content e ms = fst (snd (round_reply e ms))"

definition round_tool_calls :: "'w env \<Rightarrow> message list \<Rightarrow> tool_data list" where
  "round_tool_calls e ms = snd (snd (round_reply e ms))"

text \<open>A model that asks for an unregistered tool and for a tool whose handler raises.\<close>

definition failing_tools_model :: "message list \<Rightarrow> completion" where
  "failing_tools_model ms =
     (if role (last ms) \<noteq> ''tool''
      then Stream [tool_chunk 0 ''call_1'' ''frobnicate'' ''{}'',
                   tool_chunk 1 ''call_2'' ''update_task'' ''{}''] None
      else Stream [content_chunk ''Sorry''] None)"

text \<open>The state of a first turn of \<open>alice\<close> when the loop is entered.\<close>

definition first_turn :: "string \<Rightarrow> call_log turn" where
  "first_turn msg =
     \<lparr>ts_session = add_message (new_ChatSession ''session-1'' ''alice'' 0) ''user'' (Some msg) None 0,
      ts_messages = [system_message,
                     \<lparr>role = ''user'', content = Some msg, tool_calls = None, tool_call_id = None\<rparr>],
      ts_events = [ContentEv [] (Some ''session-1'')],
      ts_world = [],
      ts_requests = []\<rparr>"

text \<open>
  A model whose only tool call names an unregistered tool and carries no argument text,
  so that the collected argument string is empty.
\<close>

definition unparsed_call_model :: "message list \<Rightarrow> completion" where
  "unparsed_call_model ms =
     (if role (last ms) \<noteq> ''tool''
      then Stream [tool_chunk 0 ''call_1'' ''frobnicate'' []] None
      else Stream [content_chunk ''Sorry''] None)"

text \<open>
  Request validation.  \<^verbatim>\<open>routes/chat.py\<close> declares its own \<^verbatim>\<open>ChatRequest\<close> with the
  fields \<^verbatim>\<open>message: str\<close> and \<^verbatim>\<open>session_id: str | None\<close>, which the endpoint uses;
  \<^verbatim>\<open>ai/models.py\<close> declares a second \<^verbatim>\<open>ChatRequest\<close> whose message has
  \<^verbatim>\<open>min_length=1, max_length=1000\<close>, which no route uses.  The body is taken after
  JSON decoding, with a string for the message; \<open>None\<close> stands for the validation error
  (HTTP 422).  One element of the string stands for one character of the Python string.
\<close>

record ChatRequest =
  request_message :: string
  request_session_id :: "string option"

definition routes_ChatRequest :: "string \<Rightarrow> string option \<Rightarrow> ChatRequest option" where
  "routes_ChatRequest m sid = Some \<lparr>request_message = m, request_session_id = sid\<rparr>"

definition models_ChatRequest :: "string \<Rightarrow> string option \<Rightarrow> ChatRequest option" where
  "models_ChatRequest m sid =
     (if 1 \<le> length m \<and> length m \<le> 1000
      then Some \<lparr>request_message = m, request_session_id = sid\<rparr>
      else None)"

text \<open>
  \<^verbatim>\<open>chat_endpoint\<close>: the request is validated by the model of the route, then the stream
  of \<^verbatim>\<open>process_chat_stream\<close> is returned, with the \<^verbatim>\<open>user_id\<close> of the authenticated user.
\<close>

definition chat_endpoint ::
  "'w env \<Rightarrow> 'w global \<Rightarrow> string \<Rightarrow> string option \<Rightarrow> string \<Rightarrow> 'w outcome option"
where
  "chat_endpoint e g m sid current_user =
     (case routes_ChatRequest m sid of
        None \<Rightarrow> None
      | Some request \<Rightarrow>
          Some (process_chat_stream e g (request_message request) current_user
                  (request_session_id request)))"





section \<open>Properties\<close>

lemma add_message_messages:
  "messages (add_message s r c tcs now) =
     (let ms = messages s @ [\<lparr>role = r, content = c,
                 tool_calls = (case tcs of None \<Rightarrow> None | Some [] \<Rightarrow> None | Some (t # ts) \<Rightarrow> Some (t # ts)),
                 tool_call_id = None\<rparr>]
      in if length ms > 21 then ms ! 0 # drop (length ms - 20) ms else ms)"
  by (simp add: add_message_def Let_def)

lemma add_message_length: "length (messages (add_message s r c tcs now)) \<le> 21"
  by (simp add: add_message_messages Let_def)

lemma add_message_set:
  "set (messages (add_message s r c tcs now)) \<subseteq>
     insert \<lparr>role = r, content = c,
                 tool_calls = (case tcs of None \<Rightarrow> None | Some [] \<Rightarrow> None | Some (t # ts) \<Rightarrow> Some (t # ts)),
                 tool_call_id = None\<rparr> (set (messages s))"
proof -
  let ?m = "\<lparr>role = r, content = c,
                 tool_calls = (case tcs of None \<Rightarrow> None | Some [] \<Rightarrow> None | Some (t # ts) \<Rightarrow> Some (t # ts)),
                 tool_call_id = None\<rparr>"
  let ?ms = "messages s @ [?m]"
  have a: "set (drop (length ?ms - 20) ?ms) \<subseteq> set ?ms" by (rule set_drop_subset)
  have b: "length ?ms > 21 \<Longrightarrow> ?ms ! 0 \<in> set ?ms" by (intro nth_mem) simp
  show ?thesis using a b unfolding add_message_messages Let_def by (auto split: if_splits)
qed

lemma add_message_stored_ok:
  "stored_ok s \<Longrightarrow> r = ''user'' \<or> r = ''assistant'' \<Longrightarrow> stored_ok (add_message s r c None now)"
  using add_message_set [of s r c None now]
  by (auto simp: stored_ok_def list_all_iff)

lemma add_message_head:
  "messages s \<noteq> [] \<Longrightarrow> messages (add_message s r c tcs now) ! 0 = messages s ! 0"
  by (simp add: add_message_messages Let_def nth_append)

lemma add_message_other [simp]:
  "session_id (add_message s r c tcs now) = session_id s"
  "user_id (add_message s r c tcs now) = user_id s"
  "created_at (add_message s r c tcs now) = created_at s"
  "last_activity (add_message s r c tcs now) = now"
  by (simp_all add: add_message_def Let_def)

lemma cleanup_lookup:
  "cleanup_expired_sessions ss now i = Some s \<longleftrightarrow> ss i = Some s \<and> \<not> is_expired s now"
  by (auto simp: cleanup_expired_sessions_def split: option.splits)

lemma new_session_not_expired: "\<not> is_expired (new_ChatSession new_id uid now) now"
  by (simp add: is_expired_def new_ChatSession_def hours_def)

lemma get_or_create_cases:
  "fst (get_or_create_session ss uid sid new_id now) =
     (case sid of
        None \<Rightarrow> new_ChatSession new_id uid now
      | Some i \<Rightarrow>
          if i = [] then new_ChatSession new_id uid now
          else (case ss i of
                  None \<Rightarrow> new_ChatSession new_id uid now
                | Some s \<Rightarrow> if user_id s = uid \<and> \<not> is_expired s now then s
                            else new_ChatSession new_id uid now))"
  by (auto simp: get_or_create_session_def Let_def cleanup_expired_sessions_def
           split: option.splits)

text \<open>
  Claim C5.  \<^verbatim>\<open>get_or_create_session\<close> returns the session stored under the given id
  exactly when that session exists, has the caller's \<open>user_id\<close> and is not expired; in
  every other case it returns a new session of the caller, with an empty history, and
  stores it.  The session it returns always belongs to the caller.  No session is stored
  under the empty identifier, as the identifiers are UUID strings.
\<close>

theorem C5_get_or_create_session:
  assumes "[] \<notin> dom ss"
  shows "((\<exists>i s. sid = Some i \<and> ss i = Some s \<and> fst (get_or_create_session ss uid sid new_id now) = s)
            \<longleftrightarrow> (\<exists>i s. sid = Some i \<and> ss i = Some s \<and> user_id s = uid \<and> \<not> is_expired s now))
       \<and> (\<not> (\<exists>i s. sid = Some i \<and> ss i = Some s \<and> user_id s = uid \<and> \<not> is_expired s now)
            \<longrightarrow> get_or_create_session ss uid sid new_id now =
                  (new_ChatSession new_id uid now,
                   (cleanup_expired_sessions ss now)(new_id \<mapsto> new_ChatSession new_id uid now)))
       \<and> user_id (fst (get_or_create_session ss uid sid new_id now)) = uid"
proof -
  have a: "(\<exists>i s. sid = Some i \<and> ss i = Some s \<and> fst (get_or_create_session ss uid sid new_id now) = s)
            \<longleftrightarrow> (\<exists>i s. sid = Some i \<and> ss i = Some s \<and> user_id s = uid \<and> \<not> is_expired s now)"
    using assms new_session_not_expired [of new_id uid now]
    by (auto simp: get_or_create_cases new_ChatSession_def split: option.splits if_splits)
  have b: "\<not> (\<exists>i s. sid = Some i \<and> ss i = Some s \<and> user_id s = uid \<and> \<not> is_expired s now)
            \<Longrightarrow> get_or_create_session ss uid sid new_id now =
                  (new_ChatSession new_id uid now,
                   (cleanup_expired_sessions ss now)(new_id \<mapsto> new_ChatSession new_id uid now))"
    by (auto simp: get_or_create_session_def Let_def cleanup_lookup new_ChatSession_def
             split: option.splits if_splits)
  have c: "user_id (fst (get_or_create_session ss uid sid new_id now)) = uid"
    by (auto simp: get_or_create_cases new_ChatSession_def split: option.splits)
  from a b c show ?thesis by blast
qed

lemma process_chunk_events:
  "process_chunk fc cur c = Inr (evs, fc', cur') \<Longrightarrow> list_all is_content evs"
  by (auto simp: process_chunk_def Let_def split: list.splits if_splits)

lemma consume_stream_events:
  "consume_stream cs err evs fc cur = (r, evs', fc', cur')
     \<Longrightarrow> \<exists>more. evs' = evs @ more \<and> list_all is_content more"
proof (induction cs arbitrary: evs fc cur)
  case Nil
  then show ?case by simp
next
  case (Cons c cs)
  show ?case
  proof (cases "process_chunk fc cur c")
    case (Inl ex)
    with Cons.prems show ?thesis by simp
  next
    case (Inr t)
    obtain ev1 fc1 cur1 where t: "t = (ev1, fc1, cur1)" by (cases t) auto
    from Cons.prems Inr t have "consume_stream cs err (evs @ ev1) fc1 cur1 = (r, evs', fc', cur')"
      by simp
    from Cons.IH [OF this] obtain more where "evs' = (evs @ ev1) @ more" "list_all is_content more"
      by blast
    moreover have "list_all is_content ev1" using Inr t process_chunk_events by blast
    ultimately show ?thesis by (intro exI [of _ "ev1 @ more"]) simp
  qed
qed

lemma dispatch_tools_frame:
  "dispatch_tools e uid tcs st = (r, st')
     \<Longrightarrow> ts_session st' = ts_session st \<and> ts_requests st' = ts_requests st
         \<and> (\<exists>more. ts_events st' = ts_events st @ more \<and> list_all is_tool_call more)
         \<and> (\<exists>more. ts_messages st' = ts_messages st @ more \<and> list_all (\<lambda>m. role m = ''tool'') more)"
proof (induction tcs arbitrary: st)
  case Nil
  then show ?case by simp
next
  case (Cons tc tcs)
  show ?case
  proof (cases "json_loads e (td_arguments tc)")
    case (Inl ex)
    with Cons.prems show ?thesis by simp
  next
    case (Inr args)
    obtain result w' where ex: "execute_tool e uid tc (ts_world st) = (result, w')"
      by (cases "execute_tool e uid tc (ts_world st)") auto
    let ?st2 = "st\<lparr>ts_events := ts_events st @ [ToolCallEv (td_id tc) (td_name tc) args],
                     ts_world := w',
                     ts_messages := ts_messages st @
                           [\<lparr>role = ''tool'', content = Some result, tool_calls = None,
                             tool_call_id = Some (td_id tc)\<rparr>]\<rparr>"
    from Cons.prems Inr ex have "dispatch_tools e uid tcs ?st2 = (r, st')"
      by (simp add: Let_def)
    from Cons.IH [OF this] show ?thesis by auto
  qed
qed

lemma tool_results_length: "length (fst (tool_results e uid tcs w)) = length tcs"
proof (induction tcs arbitrary: w)
  case Nil
  then show ?case by simp
next
  case (Cons tc tcs)
  obtain r w' where ex: "execute_tool e uid tc w = (r, w')"
    by (cases "execute_tool e uid tc w") auto
  obtain rs w'' where tr: "tool_results e uid tcs w' = (rs, w'')"
    by (cases "tool_results e uid tcs w'") auto
  from Cons.IH [of w'] tr have "length rs = length tcs" by simp
  with ex tr show ?case by simp
qed

lemma dispatch_tools_ok:
  "list_all (parses e) tcs \<Longrightarrow>
   dispatch_tools e uid tcs st =
     (None, st\<lparr>ts_events := ts_events st @ map (tool_call_event e) tcs,
               ts_world := snd (tool_results e uid tcs (ts_world st)),
               ts_messages := ts_messages st @
                  map (\<lambda>(tc, r). tool_message tc r) (zip tcs (fst (tool_results e uid tcs (ts_world st))))\<rparr>)"
proof (induction tcs arbitrary: st)
  case Nil
  then show ?case by simp
next
  case (Cons tc tcs)
  from Cons.prems obtain args where a: "json_loads e (td_arguments tc) = Inr args"
    by (auto simp: parses_def split: sum.splits)
  from Cons.prems have rest: "list_all (parses e) tcs" by simp
  obtain result w' where ex: "execute_tool e uid tc (ts_world st) = (result, w')"
    by (cases "execute_tool e uid tc (ts_world st)") auto
  obtain rs w'' where tr: "tool_results e uid tcs w' = (rs, w'')"
    by (cases "tool_results e uid tcs w'") auto
  show ?case
    using a ex tr by (simp add: Cons.IH [OF rest] Let_def tool_call_event_def tool_message_def)
qed

lemma run_round_cases:
  obtains
    (raise) ex evs where
      "gateway_raises e (ts_messages st) = Some ex" "list_all is_content evs"
      "run_round e uid st =
         (False, st\<lparr>ts_requests := ts_requests st @ [ts_messages st],
                    ts_events := ts_events st @ evs @ [ErrorEv (str_exn ex)]\<rparr>)"
  | (final) evs fc where
      "gateway_raises e (ts_messages st) = None" "list_all is_content evs"
      "run_round e uid st =
         (False, st\<lparr>ts_requests := ts_requests st @ [ts_messages st],
                    ts_events := ts_events st @ evs,
                    ts_session := add_message (ts_session st) ''assistant'' (Some fc) None (t_reply e)\<rparr>)"
  | (tools) evs fc tcs r st3 where
      "gateway_raises e (ts_messages st) = None" "list_all is_content evs" "tcs \<noteq> []"
      "dispatch_tools e uid tcs
         (st\<lparr>ts_requests := ts_requests st @ [ts_messages st],
             ts_events := ts_events st @ evs,
             ts_messages := ts_messages st @ [assistant_tool_message fc tcs]\<rparr>) = (r, st3)"
      "run_round e uid st =
         (case r of Some ex \<Rightarrow> (False, st3\<lparr>ts_events := ts_events st3 @ [ErrorEv (str_exn ex)]\<rparr>)
                  | None \<Rightarrow> (True, st3))"
proof (cases "gateway e (ts_messages st)")
  case (CreateRaises ex)
  then have "gateway_raises e (ts_messages st) = Some ex" by (simp add: gateway_raises_def)
  moreover have "run_round e uid st =
         (False, st\<lparr>ts_requests := ts_requests st @ [ts_messages st],
                    ts_events := ts_events st @ [] @ [ErrorEv (str_exn ex)]\<rparr>)"
    using CreateRaises by (simp add: run_round_def Let_def)
  ultimately show ?thesis using raise [of ex "[]"] by simp
next
  case (Stream chunks err)
  obtain r evs fc cur where cs: "consume_stream chunks err [] [] [] = (r, evs, fc, cur)"
    by (cases "consume_stream chunks err [] [] []") auto
  from consume_stream_events [OF cs] have evs: "list_all is_content evs" by auto
  show ?thesis
  proof (cases r)
    case (Some ex)
    have "gateway_raises e (ts_messages st) = Some ex"
      using Stream cs Some by (simp add: gateway_raises_def)
    moreover have "run_round e uid st =
         (False, st\<lparr>ts_requests := ts_requests st @ [ts_messages st],
                    ts_events := ts_events st @ evs @ [ErrorEv (str_exn ex)]\<rparr>)"
      using Stream cs Some by (simp add: run_round_def Let_def)
    ultimately show ?thesis using raise evs by blast
  next
    case None
    have g: "gateway_raises e (ts_messages st) = None"
      using Stream cs None by (simp add: gateway_raises_def)
    show ?thesis
    proof (cases "map snd cur = []")
      case True
      have "run_round e uid st =
         (False, st\<lparr>ts_requests := ts_requests st @ [ts_messages st],
                    ts_events := ts_events st @ evs,
                    ts_session := add_message (ts_session st) ''assistant'' (Some fc) None (t_reply e)\<rparr>)"
        using Stream cs None True by (simp add: run_round_def Let_def)
      then show ?thesis using final g evs by blast
    next
      case False
      let ?st2 = "st\<lparr>ts_requests := ts_requests st @ [ts_messages st],
             ts_events := ts_events st @ evs,
             ts_messages := ts_messages st @ [assistant_tool_message fc (map snd cur)]\<rparr>"
      obtain r' st3 where d: "dispatch_tools e uid (map snd cur) ?st2 = (r', st3)"
        by (cases "dispatch_tools e uid (map snd cur) ?st2") auto
      have "run_round e uid st =
         (case r' of Some ex \<Rightarrow> (False, st3\<lparr>ts_events := ts_events st3 @ [ErrorEv (str_exn ex)]\<rparr>)
                  | None \<Rightarrow> (True, st3))"
        using Stream cs None False d by (simp add: run_round_def Let_def split: option.splits)
      then show ?thesis using tools [OF g evs False d] by blast
    qed
  qed
qed

lemma content_not_done: "list_all is_content evs \<Longrightarrow> DoneEv \<notin> set evs"
  by (auto simp: list_all_iff)

lemma tool_call_not_done: "list_all is_tool_call evs \<Longrightarrow> DoneEv \<notin> set evs"
  by (auto simp: list_all_iff)

lemma content_not_error: "list_all is_content evs \<Longrightarrow> filter is_error evs = []"
  by (induction evs) (auto elim: is_content.elims)

lemma tool_call_not_error: "list_all is_tool_call evs \<Longrightarrow> filter is_error evs = []"
  by (induction evs) (auto elim: is_tool_call.elims)

lemma run_round_events:
  assumes "run_round e uid st = (b, st')"
  shows "\<exists>more. ts_events st' = ts_events st @ more \<and> DoneEv \<notin> set more"
proof (cases rule: run_round_cases [of e st uid])
  case (raise ex evs)
  with assms have "ts_events st' = ts_events st @ (evs @ [ErrorEv (str_exn ex)])" by auto
  moreover have "DoneEv \<notin> set (evs @ [ErrorEv (str_exn ex)])"
    using content_not_done [OF raise(2)] by simp
  ultimately show ?thesis by blast
next
  case (final evs fc)
  with assms have "ts_events st' = ts_events st @ evs" by auto
  then show ?thesis using content_not_done [OF final(2)] by blast
next
  case (tools evs fc tcs r st3)
  from dispatch_tools_frame [OF tools(4)] obtain more where
    m: "ts_events st3 = (ts_events st @ evs) @ more" "list_all is_tool_call more" by auto
  show ?thesis
  proof (cases r)
    case None
    with tools assms have "st' = st3" by simp
    with m have "ts_events st' = ts_events st @ (evs @ more)" by simp
    moreover have "DoneEv \<notin> set (evs @ more)"
      using content_not_done [OF tools(2)] tool_call_not_done [OF m(2)] by simp
    ultimately show ?thesis by blast
  next
    case (Some ex)
    with tools assms have "st' = st3\<lparr>ts_events := ts_events st3 @ [ErrorEv (str_exn ex)]\<rparr>" by simp
    with m have "ts_events st' = ts_events st @ (evs @ more @ [ErrorEv (str_exn ex)])" by simp
    moreover have "DoneEv \<notin> set (evs @ more @ [ErrorEv (str_exn ex)])"
      using content_not_done [OF tools(2)] tool_call_not_done [OF m(2)] by simp
    ultimately show ?thesis by blast
  qed
qed

lemma tool_loop_events:
  "\<exists>more. ts_events (tool_loop e uid n st) = ts_events st @ more \<and> DoneEv \<notin> set more"
proof (induction n arbitrary: st)
  case 0
  then show ?case by simp
next
  case (Suc n)
  obtain b st1 where r: "run_round e uid st = (b, st1)" by (cases "run_round e uid st") auto
  from run_round_events [OF r] obtain m1 where
    m1: "ts_events st1 = ts_events st @ m1" "DoneEv \<notin> set m1" by blast
  show ?case
  proof (cases b)
    case True
    from Suc.IH [of st1] obtain m2 where
      m2: "ts_events (tool_loop e uid n st1) = ts_events st1 @ m2" "DoneEv \<notin> set m2" by blast
    have "ts_events (tool_loop e uid (Suc n) st) = ts_events st @ (m1 @ m2)"
      using r True m1 m2 by simp
    moreover have "DoneEv \<notin> set (m1 @ m2)" using m1 m2 by simp
    ultimately show ?thesis by blast
  next
    case False
    then have "tool_loop e uid (Suc n) st = st1" using r by simp
    with m1 show ?thesis by auto
  qed
qed

lemma done_once_with_client:
  assumes "g_client g"
  shows "last (out_events (process_chat_stream e g msg uid sid)) = DoneEv
   \<and> count_list (out_events (process_chat_stream e g msg uid sid)) DoneEv = 1"
proof -
  have Inr: "get_openai_client (g_client g) = Inr True"
    using assms by (simp add: get_openai_client_def)
  obtain s0 ss where gs: "get_or_create_session (g_sessions g) uid sid (uuid4 e) (t_request e) = (s0, ss)"
    by (cases "get_or_create_session (g_sessions g) uid sid (uuid4 e) (t_request e)") auto
  define st where "st = \<lparr>ts_session = add_message s0 ''user'' (Some msg) None (t_request e),
                     ts_messages = \<lparr>role = ''system'', content = Some SYSTEM_PROMPT,
                                    tool_calls = None, tool_call_id = None\<rparr>
                                   # get_messages_for_api (add_message s0 ''user'' (Some msg) None (t_request e)),
                     ts_events = [ContentEv [] (Some (session_id (add_message s0 ''user'' (Some msg) None (t_request e))))],
                     ts_world = g_world g,
                     ts_requests = []\<rparr>"
  have ev: "out_events (process_chat_stream e g msg uid sid)
              = ts_events (tool_loop e uid max_iterations st) @ [DoneEv]"
    using Inr gs by (simp add: process_chat_stream_def Let_def st_def)
  from tool_loop_events [of e uid max_iterations st] obtain more where
    m: "ts_events (tool_loop e uid max_iterations st) = ts_events st @ more" "DoneEv \<notin> set more"
    by blast
  have "count_list (ts_events st @ more) DoneEv = 0"
    using m(2) by (simp add: st_def count_list_0_iff)
  then show ?thesis using ev m by simp
qed

lemma run_round_requests:
  assumes "run_round e uid st = (b, st')"
  shows "ts_requests st' = ts_requests st @ [ts_messages st]"
proof (cases rule: run_round_cases [of e st uid])
  case (raise ex evs)
  with assms show ?thesis by auto
next
  case (final evs fc)
  with assms show ?thesis by auto
next
  case (tools evs fc tcs r st3)
  from dispatch_tools_frame [OF tools(4)] have "ts_requests st3 = ts_requests st @ [ts_messages st]"
    by simp
  with tools(5) assms show ?thesis by (cases r) auto
qed

lemma run_round_True:
  assumes "run_round e uid st = (True, st')"
  shows "gateway_raises e (ts_messages st) = None \<and> ts_session st' = ts_session st
         \<and> (\<exists>more. ts_events st' = ts_events st @ more \<and> filter is_error more = [])
         \<and> (\<exists>more. ts_messages st' = ts_messages st @ more \<and> more \<noteq> [])"
proof (cases rule: run_round_cases [of e st uid])
  case (raise ex evs)
  with assms show ?thesis by auto
next
  case (final evs fc)
  with assms show ?thesis by auto
next
  case (tools evs fc tcs r st3)
  with assms have r: "r = None" and st3: "st3 = st'" by (cases r; simp)+
  from dispatch_tools_frame [OF tools(4)] obtain m1 m2 where
    f: "ts_session st3 = ts_session st"
       "ts_events st3 = (ts_events st @ evs) @ m1" "list_all is_tool_call m1"
       "ts_messages st3 = (ts_messages st @ [assistant_tool_message fc tcs]) @ m2"
    by auto
  have "ts_events st' = ts_events st @ (evs @ m1)" using f st3 by simp
  moreover have "filter is_error (evs @ m1) = []"
    using content_not_error [OF tools(2)] tool_call_not_error [OF f(3)] by simp
  moreover have "ts_messages st' = ts_messages st @ (assistant_tool_message fc tcs # m2)"
    using f st3 by simp
  ultimately show ?thesis using tools(1) f(1) st3 by blast
qed

lemma run_round_raise:
  assumes "gateway_raises e (ts_messages st) = Some ex" and "run_round e uid st = (b, st')"
  shows "\<not> b \<and> ts_session st' = ts_session st \<and> ts_messages st' = ts_messages st
         \<and> ts_world st' = ts_world st
         \<and> (\<exists>evs. list_all is_content evs
                \<and> ts_events st' = ts_events st @ evs @ [ErrorEv (str_exn ex)])"
proof (cases rule: run_round_cases [of e st uid])
  case (raise ex' evs)
  with assms have "ex' = ex" by simp
  with raise assms show ?thesis by auto
next
  case (final evs fc)
  with assms show ?thesis by simp
next
  case (tools evs fc tcs r st3)
  with assms show ?thesis by simp
qed

lemma run_round_session:
  assumes "run_round e uid st = (b, st')"
  shows "ts_session st' = ts_session st
         \<or> (\<exists>fc. ts_session st' = add_message (ts_session st) ''assistant'' (Some fc) None (t_reply e))"
proof (cases rule: run_round_cases [of e st uid])
  case (raise ex evs)
  with assms show ?thesis by auto
next
  case (final evs fc)
  with assms show ?thesis by auto
next
  case (tools evs fc tcs r st3)
  from dispatch_tools_frame [OF tools(4)] have "ts_session st3 = ts_session st" by simp
  with tools(5) assms show ?thesis by (cases r) auto
qed

lemma tool_loop_requests:
  "\<exists>new. ts_requests (tool_loop e uid n st) = ts_requests st @ new \<and> length new \<le> n
        \<and> (0 < n \<longrightarrow> new \<noteq> [])
        \<and> list_all (\<lambda>ms. gateway_raises e ms = None) (butlast new)"
proof (induction n arbitrary: st)
  case 0
  then show ?case by simp
next
  case (Suc n)
  obtain b st1 where r: "run_round e uid st = (b, st1)" by (cases "run_round e uid st") auto
  note rq = run_round_requests [OF r]
  show ?case
  proof (cases b)
    case False
    then have "tool_loop e uid (Suc n) st = st1" using r by simp
    with rq show ?thesis by (intro exI [of _ "[ts_messages st]"]) simp
  next
    case True
    then have tl: "tool_loop e uid (Suc n) st = tool_loop e uid n st1" using r by simp
    from r True have rT: "run_round e uid st = (True, st1)" by simp
    from run_round_True [OF rT] have g: "gateway_raises e (ts_messages st) = None" by blast
    from Suc.IH [of st1] obtain new where
      n: "ts_requests (tool_loop e uid n st1) = ts_requests st1 @ new" "length new \<le> n"
         "list_all (\<lambda>ms. gateway_raises e ms = None) (butlast new)" by blast
    have "list_all (\<lambda>ms. gateway_raises e ms = None) (butlast (ts_messages st # new))"
      using g n(3) by (cases new) auto
    then show ?thesis using tl rq n
      by (intro exI [of _ "ts_messages st # new"]) simp
  qed
qed

lemma tool_loop_raise:
  assumes "0 < n"
    and "gateway_raises e (last (ts_requests (tool_loop e uid n st))) = Some ex"
  shows "ts_session (tool_loop e uid n st) = ts_session st
         \<and> (\<exists>evs. ts_events (tool_loop e uid n st) = ts_events st @ evs @ [ErrorEv (str_exn ex)])"
  using assms
proof (induction n arbitrary: st)
  case 0
  then show ?case by simp
next
  case (Suc n)
  obtain b st1 where r: "run_round e uid st = (b, st1)" by (cases "run_round e uid st") auto
  note rq = run_round_requests [OF r]
  show ?case
  proof (cases b)
    case False
    then have tl: "tool_loop e uid (Suc n) st = st1" using r by simp
    with Suc.prems rq have "gateway_raises e (ts_messages st) = Some ex" by simp
    from run_round_raise [OF this r] tl show ?thesis by auto
  next
    case True
    then have tl: "tool_loop e uid (Suc n) st = tool_loop e uid n st1" using r by simp
    from r True have rT: "run_round e uid st = (True, st1)" by simp
    from run_round_True [OF rT] obtain m1 where
      t: "gateway_raises e (ts_messages st) = None" "ts_session st1 = ts_session st"
         "ts_events st1 = ts_events st @ m1" by blast
    show ?thesis
    proof (cases n)
      case 0
      with tl rq Suc.prems t show ?thesis by simp
    next
      case (Suc k)
      then have "0 < n" by simp
      moreover have "gateway_raises e (last (ts_requests (tool_loop e uid n st1))) = Some ex"
        using Suc.prems tl by simp
      ultimately obtain evs where
        "ts_session (tool_loop e uid n st1) = ts_session st1"
        "ts_events (tool_loop e uid n st1) = ts_events st1 @ evs @ [ErrorEv (str_exn ex)]"
        using Suc.IH [of st1] by blast
      then show ?thesis using tl t by (intro conjI exI [of _ "m1 @ evs"]) simp_all
    qed
  qed
qed

lemma tool_loop_stored_ok:
  "stored_ok (ts_session st) \<Longrightarrow> stored_ok (ts_session (tool_loop e uid n st))"
proof (induction n arbitrary: st)
  case 0
  then show ?case by simp
next
  case (Suc n)
  obtain b st1 where r: "run_round e uid st = (b, st1)" by (cases "run_round e uid st") auto
  from run_round_session [OF r] Suc.prems have ok: "stored_ok (ts_session st1)"
    by (auto intro: add_message_stored_ok)
  show ?case
  proof (cases b)
    case True
    then show ?thesis using r Suc.IH [OF ok] by simp
  next
    case False
    then show ?thesis using r ok by simp
  qed
qed

lemma process_chat_stream_ok:
  assumes "get_openai_client (g_client g) = Inr client"
  shows "\<exists>s0 ss st.
           get_or_create_session (g_sessions g) uid sid (uuid4 e) (t_request e) = (s0, ss)
         \<and> st = \<lparr>ts_session = add_message s0 ''user'' (Some msg) None (t_request e),
                  ts_messages = system_message # messages (add_message s0 ''user'' (Some msg) None (t_request e)),
                  ts_events = [ContentEv [] (Some (session_id s0))],
                  ts_world = g_world g, ts_requests = []\<rparr>
         \<and> process_chat_stream e g msg uid sid =
             \<lparr>out_events = ts_events (tool_loop e uid 5 st) @ [DoneEv],
              out_global = \<lparr>g_sessions = ss(session_id s0 \<mapsto> ts_session (tool_loop e uid 5 st)),
                             g_client = client, g_world = ts_world (tool_loop e uid 5 st)\<rparr>,
              out_turn = Some (tool_loop e uid 5 st), out_raised = None\<rparr>"
proof -
  obtain s0 ss where gs: "get_or_create_session (g_sessions g) uid sid (uuid4 e) (t_request e) = (s0, ss)"
    by (cases "get_or_create_session (g_sessions g) uid sid (uuid4 e) (t_request e)") auto
  show ?thesis
    using assms gs
    by (simp add: process_chat_stream_def Let_def system_message_def get_messages_for_api_def
                  max_iterations_def)
qed

lemma process_chat_stream_config_error:
  assumes "get_openai_client (g_client g) = Inl ex"
  shows "process_chat_stream e g msg uid sid =
           \<lparr>out_events = [], out_global = g, out_turn = None, out_raised = Some ex\<rparr>"
  using assms
  by (auto simp: process_chat_stream_def get_openai_client_def settings_OPENAI_API_KEY_def
           split: if_splits)

lemma run_round_messages:
  assumes "run_round e uid st = (b, st')"
  shows "\<exists>more. ts_messages st' = ts_messages st @ more"
proof (cases rule: run_round_cases [of e st uid])
  case (raise ex evs)
  with assms show ?thesis by auto
next
  case (final evs fc)
  with assms show ?thesis by auto
next
  case (tools evs fc tcs r st3)
  from dispatch_tools_frame [OF tools(4)] obtain m where
    "ts_messages st3 = (ts_messages st @ [assistant_tool_message fc tcs]) @ m" by auto
  with tools(5) assms show ?thesis by (cases r) auto
qed

lemma tool_loop_messages:
  "\<exists>more. ts_messages (tool_loop e uid n st) = ts_messages st @ more"
proof (induction n arbitrary: st)
  case 0
  then show ?case by simp
next
  case (Suc n)
  obtain b st1 where r: "run_round e uid st = (b, st1)" by (cases "run_round e uid st") auto
  from run_round_messages [OF r] obtain m1 where m1: "ts_messages st1 = ts_messages st @ m1" by blast
  show ?case
  proof (cases b)
    case True
    from Suc.IH [of st1] obtain m2 where "ts_messages (tool_loop e uid n st1) = ts_messages st1 @ m2"
      by blast
    with m1 r True show ?thesis by simp
  next
    case False
    with m1 r show ?thesis by simp
  qed
qed

lemma get_or_create_stored_ok:
  assumes "\<And>i s. ss i = Some s \<Longrightarrow> stored_ok s"
    and "get_or_create_session ss uid sid new_id now = (s0, ss')"
  shows "stored_ok s0 \<and> (\<forall>i s. ss' i = Some s \<longrightarrow> stored_ok s)"
proof -
  have new: "stored_ok (new_ChatSession new_id uid now)"
    by (simp add: stored_ok_def new_ChatSession_def)
  have cl: "\<And>i s. cleanup_expired_sessions ss now i = Some s \<Longrightarrow> stored_ok s"
    using assms(1) by (auto simp: cleanup_lookup)
  from assms(2) show ?thesis
    using new cl
    by (auto simp: get_or_create_session_def Let_def split: option.splits if_splits)
qed

text \<open>
  Claim C10.  When every stored session holds only \<^verbatim>\<open>user\<close> and \<^verbatim>\<open>assistant\<close> entries
  without tool calls, so does every stored session after a turn, and so does the session
  of the turn.  The system prompt heads the list sent to the model and is not an entry of
  the session.
\<close>

theorem C10_session_stores_user_and_assistant_only:
  assumes "\<forall>i s. g_sessions g i = Some s \<longrightarrow> stored_ok s"
  shows "(\<forall>i s. g_sessions (out_global (process_chat_stream e g msg uid sid)) i = Some s \<longrightarrow> stored_ok s)
       \<and> (\<forall>st. out_turn (process_chat_stream e g msg uid sid) = Some st \<longrightarrow>
             stored_ok (ts_session st)
           \<and> (\<exists>rest. ts_messages st = system_message # rest)
           \<and> system_message \<notin> set (messages (ts_session st)))"
proof (cases "get_openai_client (g_client g)")
  case (Inl ex)
  from process_chat_stream_config_error [OF Inl, where e = e and msg = msg and uid = uid and sid = sid] assms show ?thesis by simp
next
  case (Inr client)
  from process_chat_stream_ok [OF Inr, where uid = uid and sid = sid and e = e and msg = msg] obtain s0 ss st where
    gs: "get_or_create_session (g_sessions g) uid sid (uuid4 e) (t_request e) = (s0, ss)"
    and st: "st = \<lparr>ts_session = add_message s0 ''user'' (Some msg) None (t_request e),
                  ts_messages = system_message # messages (add_message s0 ''user'' (Some msg) None (t_request e)),
                  ts_events = [ContentEv [] (Some (session_id s0))],
                  ts_world = g_world g, ts_requests = []\<rparr>"
    and p: "process_chat_stream e g msg uid sid =
             \<lparr>out_events = ts_events (tool_loop e uid 5 st) @ [DoneEv],
              out_global = \<lparr>g_sessions = ss(session_id s0 \<mapsto> ts_session (tool_loop e uid 5 st)),
                             g_client = client, g_world = ts_world (tool_loop e uid 5 st)\<rparr>,
              out_turn = Some (tool_loop e uid 5 st), out_raised = None\<rparr>"
    by blast
  from get_or_create_stored_ok [OF _ gs] assms have
    ok0: "stored_ok s0" and okss: "\<And>i s. ss i = Some s \<Longrightarrow> stored_ok s" by blast+
  have "stored_ok (ts_session st)" using ok0 st by (simp add: add_message_stored_ok)
  then have fin: "stored_ok (ts_session (tool_loop e uid 5 st))" by (rule tool_loop_stored_ok)
  have nosys: "system_message \<notin> set (messages (ts_session (tool_loop e uid 5 st)))"
    using fin by (auto simp: stored_ok_def list_all_iff system_message_def)
  obtain more where "ts_messages (tool_loop e uid 5 st) = ts_messages st @ more"
    using tool_loop_messages [of e uid 5 st] by blast
  then have hd: "\<exists>rest. ts_messages (tool_loop e uid 5 st) = system_message # rest"
    using st by simp
  show ?thesis using p fin nosys hd okss by auto
qed

lemmas chat_defs =
  process_chat_stream_def get_openai_client_def settings_OPENAI_API_KEY_def truthy_def
  get_or_create_session_def
  cleanup_expired_sessions_def is_expired_def hours_def new_ChatSession_def add_message_def
  get_messages_for_api_def max_iterations_def run_round_def process_chunk_def
  collect_tool_call_def dict_modify_def assistant_tool_message_def execute_tool_def
  TOOL_HANDLERS_def call_with_user_id_def tool_error_text_def unknown_tool_text_def
  funcstr_def Let_def eval_nat_numeral

lemmas example_defs =
  example_env_def example_impls_def example_loads_def recording_handler_def failing_handler_def
  content_chunk_def tool_chunk_def plain_model_def tool_then_answer_def always_tool_model_def
  unreachable_model_def empty_global_def fresh_global_def example_store_def alice_session_def
  title_args_def spoofed_args_def

theorem C10_witness:
  "g_sessions resumed_global = [''session-1'' \<mapsto> alice_session] \<and> stored_ok alice_session
   \<and> (\<exists>st. out_turn (process_chat_stream (example_env (tool_then_answer ''create_task'' title_args))
                 resumed_global ''and eggs'' ''alice'' (Some ''session-1'')) = Some st
          \<and> stored_ok (ts_session st) \<and> length (messages (ts_session st)) = 4
          \<and> map role (ts_messages st) = [''system'', ''user'', ''assistant'', ''user'', ''assistant'', ''tool''])"
proof -
  have h: "\<forall>i s. g_sessions resumed_global i = Some s \<longrightarrow> stored_ok s"
    by (simp add: resumed_global_def example_store_def alice_session_def stored_ok_def)
  have ev: "\<exists>st. out_turn (process_chat_stream (example_env (tool_then_answer ''create_task'' title_args))
                 resumed_global ''and eggs'' ''alice'' (Some ''session-1'')) = Some st
          \<and> length (messages (ts_session st)) = 4
          \<and> map role (ts_messages st) = [''system'', ''user'', ''assistant'', ''user'', ''assistant'', ''tool'']"
    by (simp add: chat_defs example_defs resumed_global_def)
  from ev obtain st where
    st: "out_turn (process_chat_stream (example_env (tool_then_answer ''create_task'' title_args))
                 resumed_global ''and eggs'' ''alice'' (Some ''session-1'')) = Some st"
        "length (messages (ts_session st)) = 4"
        "map role (ts_messages st) = [''system'', ''user'', ''assistant'', ''user'', ''assistant'', ''tool'']"
    by (elim exE conjE)
  have "stored_ok (ts_session st)"
    using C10_session_stores_user_and_assistant_only
            [OF h, where e = "example_env (tool_then_answer ''create_task'' title_args)"
               and msg = "''and eggs''" and uid = "''alice''" and sid = "Some ''session-1''"]
          st(1)
    by blast
  moreover have "g_sessions resumed_global = [''session-1'' \<mapsto> alice_session]"
    by (simp add: resumed_global_def example_store_def)
  moreover have "stored_ok alice_session"
    by (simp add: alice_session_def stored_ok_def)
  ultimately show ?thesis using st by (intro conjI exI [of _ st]) assumption+
qed

lemma run_round_tool_call:
  assumes "requests_tool_call e (ts_messages st)"
  shows "\<exists>st'. run_round e uid st = (True, st')"
proof -
  from assms obtain chunks err where g: "gateway e (ts_messages st) = Stream chunks err"
    by (auto simp: requests_tool_call_def split: completion.splits)
  obtain r evs fc cur where cs: "consume_stream chunks err [] [] [] = (r, evs, fc, cur)"
    by (cases "consume_stream chunks err [] [] []") auto
  from assms g cs have r: "r = None" and cur: "cur \<noteq> []" and p: "list_all (parses e) (map snd cur)"
    by (auto simp: requests_tool_call_def split: option.splits)
  show ?thesis
    using g cs r cur by (simp add: run_round_def Let_def dispatch_tools_ok [OF p])
qed

lemma tool_loop_always_tool_call:
  assumes "\<forall>ms. requests_tool_call e ms"
  shows "length (ts_requests (tool_loop e uid n st)) = length (ts_requests st) + n
         \<and> filter is_error (ts_events (tool_loop e uid n st)) = filter is_error (ts_events st)"
proof (induction n arbitrary: st)
  case 0
  then show ?case by simp
next
  case (Suc n)
  from assms have "requests_tool_call e (ts_messages st)" by simp
  from run_round_tool_call [OF this] obtain st1 where r: "run_round e uid st = (True, st1)" by blast
  from run_round_True [OF r] obtain more where
    m: "ts_events st1 = ts_events st @ more" "filter is_error more = []" by blast
  from run_round_requests [OF r] Suc.IH [of st1] r m show ?case by simp
qed

text \<open>
  Claim C7.  A turn calls the model at most \<open>max_iterations = 5\<close> times.  Once the turn
  has its client, so that the loop is entered, its stream ends with \<^verbatim>\<open>done\<close>.  Against a
  model that asks for a tool in every round the turn makes exactly five calls, yields no
  \<^verbatim>\<open>error\<close> event and still ends with \<^verbatim>\<open>done\<close>.
\<close>

theorem C7_round_limit:
  "model_calls (process_chat_stream e g msg uid sid) \<le> max_iterations
   \<and> ((\<exists>client. get_openai_client (g_client g) = Inr client)
        \<longrightarrow> last (out_events (process_chat_stream e g msg uid sid)) = DoneEv)
   \<and> ((\<forall>ms. requests_tool_call e ms) \<and> (\<exists>client. get_openai_client (g_client g) = Inr client)
        \<longrightarrow> model_calls (process_chat_stream e g msg uid sid) = max_iterations
          \<and> filter is_error (out_events (process_chat_stream e g msg uid sid)) = []
          \<and> last (out_events (process_chat_stream e g msg uid sid)) = DoneEv)"
proof (cases "get_openai_client (g_client g)")
  case (Inl ex)
  from process_chat_stream_config_error [OF Inl, where e = e and msg = msg and uid = uid and sid = sid] Inl show ?thesis
    by (simp add: model_calls_def)
next
  case (Inr client)
  from process_chat_stream_ok [OF Inr, where uid = uid and sid = sid and e = e and msg = msg] obtain s0 ss st where
    st: "st = \<lparr>ts_session = add_message s0 ''user'' (Some msg) None (t_request e),
                  ts_messages = system_message # messages (add_message s0 ''user'' (Some msg) None (t_request e)),
                  ts_events = [ContentEv [] (Some (session_id s0))],
                  ts_world = g_world g, ts_requests = []\<rparr>"
    and p: "process_chat_stream e g msg uid sid =
             \<lparr>out_events = ts_events (tool_loop e uid 5 st) @ [DoneEv],
              out_global = \<lparr>g_sessions = ss(session_id s0 \<mapsto> ts_session (tool_loop e uid 5 st)),
                             g_client = client, g_world = ts_world (tool_loop e uid 5 st)\<rparr>,
              out_turn = Some (tool_loop e uid 5 st), out_raised = None\<rparr>"
    by blast
  from tool_loop_requests [of e uid 5 st] st have
    le: "length (ts_requests (tool_loop e uid 5 st)) \<le> 5" by auto
  have "(\<forall>ms. requests_tool_call e ms) \<Longrightarrow>
          length (ts_requests (tool_loop e uid 5 st)) = 5
          \<and> filter is_error (ts_events (tool_loop e uid 5 st)) = []"
    using tool_loop_always_tool_call [of e uid 5 st] st by simp
  with le p show ?thesis by (auto simp: model_calls_def max_iterations_def)
qed

theorem C7_witness:
  "(\<forall>ms. requests_tool_call (example_env always_tool_model) ms)
   \<and> (\<exists>client. get_openai_client (g_client empty_global) = Inr client)
   \<and> model_calls (process_chat_stream (example_env always_tool_model) empty_global ''list'' ''alice'' None) = 5
   \<and> filter is_error (out_events (process_chat_stream (example_env always_tool_model) empty_global ''list'' ''alice'' None)) = []
   \<and> last (out_events (process_chat_stream (example_env always_tool_model) empty_global ''list'' ''alice'' None)) = DoneEv"
proof -
  have a: "\<forall>ms. requests_tool_call (example_env always_tool_model) ms"
    by (simp add: requests_tool_call_def parses_def chat_defs example_defs)
  have "get_openai_client (g_client empty_global) = Inr True"
    by (simp add: chat_defs example_defs)
  then have b: "\<exists>client. get_openai_client (g_client empty_global) = Inr client"
    by blast
  from C7_round_limit [of "example_env always_tool_model" empty_global "''list''" "''alice''" None] a b
  show ?thesis by (simp add: max_iterations_def)
qed

lemma last_of_butlast:
  "x \<in> set xs \<Longrightarrow> list_all P (butlast xs) \<Longrightarrow> \<not> P x \<Longrightarrow> x = last xs"
  by (induction xs) (auto split: if_splits)

text \<open>
  Claim C8.  When a call of the gateway in a turn raises, at its creation or while its
  stream is read, that call is the last one of the turn, the stream ends with the
  \<^verbatim>\<open>error\<close> event of that exception followed by \<^verbatim>\<open>done\<close>, and the session is the one
  the turn had after it appended the user's message: no round before the failure and
  no part of the failed round has changed it.
\<close>

theorem C8_gateway_error:
  assumes "out_turn (process_chat_stream e g msg uid sid) = Some st"
    and "ms \<in> set (ts_requests st)"
    and "gateway_raises e ms = Some ex"
  shows "(\<exists>evs. out_events (process_chat_stream e g msg uid sid) = evs @ [ErrorEv (str_exn ex), DoneEv])
       \<and> ts_session st =
           add_message (fst (get_or_create_session (g_sessions g) uid sid (uuid4 e) (t_request e)))
             ''user'' (Some msg) None (t_request e)
       \<and> ms = last (ts_requests st)"
proof (cases "get_openai_client (g_client g)")
  case (Inl ex')
  from process_chat_stream_config_error [OF Inl, where e = e and msg = msg and uid = uid and sid = sid] assms(1) show ?thesis by simp
next
  case (Inr client)
  from process_chat_stream_ok [OF Inr, where uid = uid and sid = sid and e = e and msg = msg] obtain s0 ss st0 where
    gs: "get_or_create_session (g_sessions g) uid sid (uuid4 e) (t_request e) = (s0, ss)"
    and st0: "st0 = \<lparr>ts_session = add_message s0 ''user'' (Some msg) None (t_request e),
                  ts_messages = system_message # messages (add_message s0 ''user'' (Some msg) None (t_request e)),
                  ts_events = [ContentEv [] (Some (session_id s0))],
                  ts_world = g_world g, ts_requests = []\<rparr>"
    and p: "process_chat_stream e g msg uid sid =
             \<lparr>out_events = ts_events (tool_loop e uid 5 st0) @ [DoneEv],
              out_global = \<lparr>g_sessions = ss(session_id s0 \<mapsto> ts_session (tool_loop e uid 5 st0)),
                             g_client = client, g_world = ts_world (tool_loop e uid 5 st0)\<rparr>,
              out_turn = Some (tool_loop e uid 5 st0), out_raised = None\<rparr>"
    by blast
  from p assms(1) have st: "st = tool_loop e uid 5 st0" by simp
  from tool_loop_requests [of e uid 5 st0] st0 st have
    bl: "list_all (\<lambda>ms. gateway_raises e ms = None) (butlast (ts_requests st))" by auto
  have lst: "ms = last (ts_requests st)"
    using last_of_butlast [OF assms(2) bl] assms(3) by simp
  have "gateway_raises e (last (ts_requests (tool_loop e uid 5 st0))) = Some ex"
    using lst assms(3) st by simp
  from tool_loop_raise [OF _ this] obtain evs where
    "ts_session st = ts_session st0"
    "ts_events st = ts_events st0 @ evs @ [ErrorEv (str_exn ex)]"
    using st by auto
  then show ?thesis using p st st0 gs lst by simp
qed

theorem C8_witness:
  "\<exists>st. out_turn (process_chat_stream (example_env interrupted_model) empty_global ''list'' ''alice'' None) = Some st
       \<and> last (ts_requests st) \<in> set (ts_requests st)
       \<and> gateway_raises (example_env interrupted_model) (last (ts_requests st)) = Some (APIError ''Connection error.'')
       \<and> out_events (process_chat_stream (example_env interrupted_model) empty_global ''list'' ''alice'' None)
           = [ContentEv [] (Some ''session-1''), ToolCallEv ''call_1'' ''list_tasks'' (JObj []),
              ContentEv ''You have'' None, ErrorEv ''Connection error.'', DoneEv]
       \<and> messages (ts_session st) =
           [\<lparr>role = ''user'', content = Some ''list'', tool_calls = None, tool_call_id = None\<rparr>]"
proof -
  obtain st where
    st: "out_turn (process_chat_stream (example_env interrupted_model) empty_global ''list'' ''alice'' None) = Some st"
    by (simp add: chat_defs example_defs interrupted_model_def)
  have rq: "length (ts_requests st) = 2"
    using st by (auto simp add: chat_defs example_defs interrupted_model_def)
  then have mem: "last (ts_requests st) \<in> set (ts_requests st)" by (intro last_in_set) auto
  have gr: "gateway_raises (example_env interrupted_model) (last (ts_requests st)) = Some (APIError ''Connection error.'')"
    using st by (auto simp add: gateway_raises_def chat_defs example_defs interrupted_model_def)
  have evs: "out_events (process_chat_stream (example_env interrupted_model) empty_global ''list'' ''alice'' None)
           = [ContentEv [] (Some ''session-1''), ToolCallEv ''call_1'' ''list_tasks'' (JObj []),
              ContentEv ''You have'' None, ErrorEv ''Connection error.'', DoneEv]"
    by (simp add: chat_defs example_defs interrupted_model_def)
  have ms: "messages (ts_session st) =
           [\<lparr>role = ''user'', content = Some ''list'', tool_calls = None, tool_call_id = None\<rparr>]"
    using C8_gateway_error [OF st mem gr] by (simp add: chat_defs example_defs)
  from st mem gr evs ms show ?thesis by blast
qed

lemma requests_tool_call_iff:
  "requests_tool_call e ms \<longleftrightarrow>
     gateway_raises e ms = None \<and> round_tool_calls e ms \<noteq> []
     \<and> list_all (parses e) (round_tool_calls e ms)"
  by (auto simp: requests_tool_call_def gateway_raises_def round_tool_calls_def round_reply_def
           split: completion.splits option.splits prod.splits)

lemma run_round_tools_ok:
  assumes "requests_tool_call e (ts_messages st)"
  shows "\<exists>evs. list_all is_content evs \<and>
         run_round e uid st =
           (True, st\<lparr>ts_requests := ts_requests st @ [ts_messages st],
                     ts_events := ts_events st @ evs
                        @ map (tool_call_event e) (round_tool_calls e (ts_messages st)),
                     ts_world := snd (tool_results e uid (round_tool_calls e (ts_messages st)) (ts_world st)),
                     ts_messages := ts_messages st
                        @ assistant_tool_message (round_content e (ts_messages st))
                                                 (round_tool_calls e (ts_messages st))
                        # map (\<lambda>(tc, r). tool_message tc r)
                            (zip (round_tool_calls e (ts_messages st))
                                 (fst (tool_results e uid (round_tool_calls e (ts_messages st)) (ts_world st))))\<rparr>)"
proof -
  from assms obtain chunks err where g: "gateway e (ts_messages st) = Stream chunks err"
    by (auto simp: requests_tool_call_def split: completion.splits)
  obtain r evs fc cur where cs: "consume_stream chunks err [] [] [] = (r, evs, fc, cur)"
    by (cases "consume_stream chunks err [] [] []") auto
  from assms g cs have r: "r = None" and cur: "cur \<noteq> []" and p: "list_all (parses e) (map snd cur)"
    by (auto simp: requests_tool_call_def split: option.splits)
  from consume_stream_events [OF cs] have evs: "list_all is_content evs" by auto
  have rc: "round_content e (ts_messages st) = fc" "round_tool_calls e (ts_messages st) = map snd cur"
    using g cs by (simp_all add: round_content_def round_tool_calls_def round_reply_def)
  have "run_round e uid st =
           (True, st\<lparr>ts_requests := ts_requests st @ [ts_messages st],
                     ts_events := ts_events st @ evs @ map (tool_call_event e) (map snd cur),
                     ts_world := snd (tool_results e uid (map snd cur) (ts_world st)),
                     ts_messages := ts_messages st
                        @ assistant_tool_message fc (map snd cur)
                        # map (\<lambda>(tc, r). tool_message tc r)
                            (zip (map snd cur) (fst (tool_results e uid (map snd cur) (ts_world st))))\<rparr>)"
    using g cs r cur by (simp add: run_round_def Let_def dispatch_tools_ok [OF p])
  with evs rc show ?thesis by auto
qed

lemma tool_results_nth:
  "i < length tcs \<Longrightarrow> \<exists>w'. fst (tool_results e uid tcs w) ! i = fst (execute_tool e uid (tcs ! i) w')"
proof (induction tcs arbitrary: w i)
  case Nil
  then show ?case by simp
next
  case (Cons tc tcs)
  obtain r w1 where ex: "execute_tool e uid tc w = (r, w1)"
    by (cases "execute_tool e uid tc w") auto
  obtain rs w2 where tr: "tool_results e uid tcs w1 = (rs, w2)"
    by (cases "tool_results e uid tcs w1") auto
  show ?case
  proof (cases i)
    case 0
    with ex tr show ?thesis by (intro exI [of _ w]) simp
  next
    case (Suc j)
    with Cons.prems have "j < length tcs" by simp
    from Cons.IH [OF this, of w1] obtain w' where
      "fst (tool_results e uid tcs w1) ! j = fst (execute_tool e uid (tcs ! j) w')" by blast
    with ex tr Suc show ?thesis by (intro exI [of _ w']) simp
  qed
qed

lemma execute_tool_unknown:
  "TOOL_HANDLERS (impls e) (td_name tc) = None \<Longrightarrow>
   execute_tool e uid tc w = (unknown_tool_text (td_name tc), w)"
  by (simp add: execute_tool_def)

lemma execute_tool_raises:
  "TOOL_HANDLERS (impls e) (td_name tc) = Some h \<Longrightarrow> json_loads e (td_arguments tc) = Inr args \<Longrightarrow>
   call_with_user_id h (td_name tc) uid args w = (Inl ex, w') \<Longrightarrow>
   execute_tool e uid tc w = (tool_error_text ex, w')"
  by (simp add: execute_tool_def)

lemma tool_call_events_not_error: "filter is_error (map (tool_call_event e) tcs) = []"
  by (induction tcs) (simp_all add: tool_call_event_def)

lemma dispatch_tools_step:
  assumes "json_loads e (td_arguments tc) = Inr args"
  shows "dispatch_tools e uid (tc # tcs) st =
           dispatch_tools e uid tcs
             (st\<lparr>ts_events := ts_events st @ [ToolCallEv (td_id tc) (td_name tc) args],
                 ts_world := snd (execute_tool e uid tc (ts_world st)),
                 ts_messages := ts_messages st @
                    [tool_message tc (fst (execute_tool e uid tc (ts_world st)))]\<rparr>)"
  using assms by (simp add: Let_def tool_message_def split: prod.splits)

text \<open>
  In a round whose tool calls have reached the handler lookup (their \<^verbatim>\<open>tool_call\<close>
  events were yielded, that is, their arguments parsed), the round goes on to the next
  iteration without any \<^verbatim>\<open>error\<close> event, and the list sent to the model next holds one
  tool message per call, in call order, whose content is the result of the inner
  \<^verbatim>\<open>try\<close>: the text \<open>Unknown tool\<close> for a name without a handler and the text
  \<open>Tool execution error\<close> for a handler call that raises.
\<close>

lemma tool_round_recovers_failures:
  assumes "requests_tool_call e (ts_messages st)"
    and "tcs = round_tool_calls e (ts_messages st)"
  shows "(\<exists>st'. run_round e uid st = (True, st')
            \<and> filter is_error (ts_events st') = filter is_error (ts_events st)
            \<and> ts_messages st' = ts_messages st
                 @ assistant_tool_message (round_content e (ts_messages st)) tcs
                 # map (\<lambda>(tc, r). tool_message tc r) (zip tcs (fst (tool_results e uid tcs (ts_world st)))))
       \<and> length (fst (tool_results e uid tcs (ts_world st))) = length tcs
       \<and> (\<forall>i < length tcs. \<exists>w. fst (tool_results e uid tcs (ts_world st)) ! i
                                   = fst (execute_tool e uid (tcs ! i) w))
       \<and> (\<forall>tc w. TOOL_HANDLERS (impls e) (td_name tc) = None
              \<longrightarrow> execute_tool e uid tc w = (unknown_tool_text (td_name tc), w))
       \<and> (\<forall>tc w h args ex w'.
              TOOL_HANDLERS (impls e) (td_name tc) = Some h
              \<and> json_loads e (td_arguments tc) = Inr args
              \<and> call_with_user_id h (td_name tc) uid args w = (Inl ex, w')
              \<longrightarrow> execute_tool e uid tc w = (tool_error_text ex, w'))
       \<and> (\<forall>tc args rest st0. json_loads e (td_arguments tc) = Inr args
              \<longrightarrow> dispatch_tools e uid (tc # rest) st0 =
                    dispatch_tools e uid rest
                      (st0\<lparr>ts_events := ts_events st0 @ [ToolCallEv (td_id tc) (td_name tc) args],
                           ts_world := snd (execute_tool e uid tc (ts_world st0)),
                           ts_messages := ts_messages st0 @
                              [tool_message tc (fst (execute_tool e uid tc (ts_world st0)))]\<rparr>))"
proof -
  from run_round_tools_ok [OF assms(1), of uid] obtain evs where
    evs: "list_all is_content evs"
    and rr: "run_round e uid st =
           (True, st\<lparr>ts_requests := ts_requests st @ [ts_messages st],
                     ts_events := ts_events st @ evs @ map (tool_call_event e) tcs,
                     ts_world := snd (tool_results e uid tcs (ts_world st)),
                     ts_messages := ts_messages st
                        @ assistant_tool_message (round_content e (ts_messages st)) tcs
                        # map (\<lambda>(tc, r). tool_message tc r)
                            (zip tcs (fst (tool_results e uid tcs (ts_world st))))\<rparr>)"
    unfolding assms(2) by blast
  have a: "\<exists>st'. run_round e uid st = (True, st')
            \<and> filter is_error (ts_events st') = filter is_error (ts_events st)
            \<and> ts_messages st' = ts_messages st
                 @ assistant_tool_message (round_content e (ts_messages st)) tcs
                 # map (\<lambda>(tc, r). tool_message tc r) (zip tcs (fst (tool_results e uid tcs (ts_world st))))"
    using rr content_not_error [OF evs] by (simp add: tool_call_events_not_error)
  have b: "length (fst (tool_results e uid tcs (ts_world st))) = length tcs"
    by (rule tool_results_length)
  have c: "\<forall>i < length tcs. \<exists>w. fst (tool_results e uid tcs (ts_world st)) ! i
                                   = fst (execute_tool e uid (tcs ! i) w)"
    by (intro allI impI tool_results_nth)
  have d: "\<forall>tc w. TOOL_HANDLERS (impls e) (td_name tc) = None
              \<longrightarrow> execute_tool e uid tc w = (unknown_tool_text (td_name tc), w)"
    by (intro allI impI execute_tool_unknown)
  have f: "\<forall>tc w h args ex w'.
              TOOL_HANDLERS (impls e) (td_name tc) = Some h
              \<and> json_loads e (td_arguments tc) = Inr args
              \<and> call_with_user_id h (td_name tc) uid args w = (Inl ex, w')
              \<longrightarrow> execute_tool e uid tc w = (tool_error_text ex, w')"
    by (intro allI impI, elim conjE, rule execute_tool_raises)
  have g: "\<forall>tc args rest st0. json_loads e (td_arguments tc) = Inr args
              \<longrightarrow> dispatch_tools e uid (tc # rest) st0 =
                    dispatch_tools e uid rest
                      (st0\<lparr>ts_events := ts_events st0 @ [ToolCallEv (td_id tc) (td_name tc) args],
                           ts_world := snd (execute_tool e uid tc (ts_world st0)),
                           ts_messages := ts_messages st0 @
                              [tool_message tc (fst (execute_tool e uid tc (ts_world st0)))]\<rparr>)"
    by (intro allI impI dispatch_tools_step)
  show ?thesis by (intro conjI a b c d f g)
qed

lemmas round_defs =
  requests_tool_call_def round_tool_calls_def round_content_def round_reply_def parses_def
  gateway_raises_def first_turn_def failing_tools_model_def tool_message_def

lemma tool_round_recovers_failures_example:
  "requests_tool_call (example_env failing_tools_model) (ts_messages (first_turn ''rename it''))
   \<and> map td_name (round_tool_calls (example_env failing_tools_model) (ts_messages (first_turn ''rename it'')))
        = [''frobnicate'', ''update_task'']
   \<and> (\<exists>st'. run_round (example_env failing_tools_model) ''alice'' (first_turn ''rename it'') = (True, st')
          \<and> filter is_error (ts_events st') = []
          \<and> map content (drop 3 (ts_messages st'))
               = [Some (unknown_tool_text ''frobnicate''),
                  Some (tool_error_text (HandlerError ''connection refused''))])"
proof -
  let ?e = "example_env failing_tools_model"
  let ?st = "first_turn ''rename it''"
  have h: "requests_tool_call ?e (ts_messages ?st)"
    by (simp add: round_defs chat_defs example_defs)
  have n: "map td_name (round_tool_calls ?e (ts_messages ?st)) = [''frobnicate'', ''update_task'']"
    by (simp add: round_defs chat_defs example_defs)
  from tool_round_recovers_failures [OF h refl, of "''alice''"] obtain st' where
    rr: "run_round ?e ''alice'' ?st = (True, st')"
    and ev: "filter is_error (ts_events st') = filter is_error (ts_events ?st)"
    by (elim conjE exE)
  have ev0: "filter is_error (ts_events st') = []"
    using ev by (simp add: first_turn_def)
  have ms: "map content (drop 3 (ts_messages st'))
               = [Some (unknown_tool_text ''frobnicate''),
                  Some (tool_error_text (HandlerError ''connection refused''))]"
    using rr by (auto simp add: round_defs chat_defs example_defs)
  from h n rr ev0 ms show ?thesis by (intro conjI exI [of _ st']) assumption+
qed




text \<open>
  Claim C3.  The stream of the first request of a process, when \<^verbatim>\<open>_client\<close> is not set:
  the read of \<^verbatim>\<open>settings.OPENAI_API_KEY\<close> raises AttributeError, which the
  \<^verbatim>\<open>except ValueError\<close> of \<^verbatim>\<open>process_chat_stream\<close> does not catch, so the generator ends
  before its first \<^verbatim>\<open>yield\<close>: the stream has no event, and no \<^verbatim>\<open>done\<close>.
\<close>

theorem C3_missing_setting_ends_stream_without_done:
  "out_events (process_chat_stream e fresh_global msg uid sid) = []
   \<and> count_list (out_events (process_chat_stream e fresh_global msg uid sid)) DoneEv = 0
   \<and> out_raised (process_chat_stream e fresh_global msg uid sid)
       = Some (AttributeError ([CHR 0x27] @ ''Settings'' @ [CHR 0x27] @ '' object has no attribute ''
                               @ [CHR 0x27] @ ''OPENAI_API_KEY'' @ [CHR 0x27]))
   \<and> get_openai_client False
       = Inl (AttributeError ([CHR 0x27] @ ''Settings'' @ [CHR 0x27] @ '' object has no attribute ''
                              @ [CHR 0x27] @ ''OPENAI_API_KEY'' @ [CHR 0x27]))"
  by (simp add: process_chat_stream_def get_openai_client_def settings_OPENAI_API_KEY_def
                fresh_global_def)

text \<open>
  Claim C4.  A tool call with an unregistered name and an empty argument string: the
  \<^verbatim>\<open>tool_call\<close> event parses the arguments before the inner \<^verbatim>\<open>try\<close>, so the parse error
  reaches the outer \<^verbatim>\<open>except\<close>; the stream carries an \<^verbatim>\<open>error\<close> event, the round is the
  last one and no tool message is written.  With arguments that parse, the same name and
  a handler that raises both end in a tool message with the error text, and the loop
  goes on to the answer of the model.
\<close>

theorem C4_unparsed_arguments_abort_the_round:
  "out_events (process_chat_stream (example_env unparsed_call_model) empty_global
       ''do it'' ''alice'' None)
     = [ContentEv [] (Some ''session-1''),
        ErrorEv ''Expecting value: line 1 column 1 (char 0)'', DoneEv]
   \<and> model_calls (process_chat_stream (example_env unparsed_call_model) empty_global
         ''do it'' ''alice'' None) = 1
   \<and> map role (ts_messages (the (out_turn (process_chat_stream (example_env unparsed_call_model)
         empty_global ''do it'' ''alice'' None))))
     = [''system'', ''user'', ''assistant'']
   \<and> out_events (process_chat_stream (example_env failing_tools_model) empty_global
         ''rename it'' ''alice'' None)
     = [ContentEv [] (Some ''session-1''),
        ToolCallEv ''call_1'' ''frobnicate'' (JObj []),
        ToolCallEv ''call_2'' ''update_task'' (JObj []),
        ContentEv ''Sorry'' None, DoneEv]
   \<and> map content (drop 3 (ts_messages (the (out_turn (process_chat_stream
         (example_env failing_tools_model) empty_global ''rename it'' ''alice'' None)))))
     = [Some ([CHR 0xE2, CHR 0x80, CHR 0x9A, CHR 0xC3, CHR 0xB9, CHR 0xC3, CHR 0xA5]
              @ '' Unknown tool: frobnicate''),
        Some ([CHR 0xE2, CHR 0x80, CHR 0x9A, CHR 0xC3, CHR 0xB9, CHR 0xC3, CHR 0xA5]
              @ '' Tool execution error: connection refused'')]"
  by (simp add: chat_defs example_defs model_calls_def unparsed_call_model_def
                failing_tools_model_def cross_mark_def)

text \<open>
  Claim C9.  The endpoint validates its body with the \<^verbatim>\<open>ChatRequest\<close> of
  \<^verbatim>\<open>routes/chat.py\<close>, which puts no bound on the message: the empty message and a message
  of 1001 characters are both passed to \<^verbatim>\<open>process_chat_stream\<close>, where the
  \<^verbatim>\<open>ChatRequest\<close> of \<^verbatim>\<open>ai/models.py\<close> rejects both.  With the empty message the model is
  called, with the system prompt and an empty user message.
\<close>

theorem C9_endpoint_accepts_empty_and_long_messages:
  "chat_endpoint e g [] sid u = Some (process_chat_stream e g [] u sid)
   \<and> models_ChatRequest [] sid = None
   \<and> chat_endpoint e g (replicate 1001 CHR ''a'') sid u
        = Some (process_chat_stream e g (replicate 1001 CHR ''a'') u sid)
   \<and> models_ChatRequest (replicate 1001 CHR ''a'') sid = None
   \<and> map_option model_calls (chat_endpoint (example_env plain_model) empty_global [] None ''alice'')
        = Some 1
   \<and> map_option (\<lambda>out. map content (concat (ts_requests (the (out_turn out)))))
        (chat_endpoint (example_env plain_model) empty_global [] None ''alice'')
        = Some [Some SYSTEM_PROMPT, Some []]"
  by (simp add: chat_endpoint_def routes_ChatRequest_def models_ChatRequest_def model_calls_def
                chat_defs example_defs)

text \<open>
  Claim C1.  After the first turn of a new session the session holds the user's message
  and the answer: its entry 0 has the role \<^verbatim>\<open>user\<close>, not \<^verbatim>\<open>system\<close>, and it is the object
  the store holds.  The trimming of \<^verbatim>\<open>add_message\<close> (lemmas \<open>add_message_length\<close>,
  \<open>add_message_head\<close> and \<open>add_message_trim\<close>) therefore keeps the first user message of
  the session in front of the twenty latest entries.
\<close>

theorem C1_session_index_0_is_first_user_message:
  "out_turn (process_chat_stream (example_env plain_model) empty_global ''hi'' ''alice'' None) \<noteq> None
   \<and> messages (ts_session (the (out_turn
        (process_chat_stream (example_env plain_model) empty_global ''hi'' ''alice'' None))))
      = [\<lparr>role = ''user'', content = Some ''hi'', tool_calls = None, tool_call_id = None\<rparr>,
         \<lparr>role = ''assistant'', content = Some ''Hello'', tool_calls = None, tool_call_id = None\<rparr>]
   \<and> role (messages (ts_session (the (out_turn
        (process_chat_stream (example_env plain_model) empty_global ''hi'' ''alice'' None)))) ! 0)
      = ''user''
   \<and> g_sessions (out_global
        (process_chat_stream (example_env plain_model) empty_global ''hi'' ''alice'' None)) ''session-1''
      = Some (ts_session (the (out_turn
        (process_chat_stream (example_env plain_model) empty_global ''hi'' ''alice'' None))))
   \<and> messages (ts_session (the (out_turn
        (process_chat_stream (example_env unreachable_model) empty_global ''hi'' ''alice'' None))))
      = [\<lparr>role = ''user'', content = Some ''hi'', tool_calls = None, tool_call_id = None\<rparr>]"
  by (simp add: chat_defs example_defs)

lemma add_message_trim:
  assumes "length (messages s) = 21"
  shows "messages (add_message s r c None now) =
           messages s ! 0 # drop 2 (messages s) @
             [\<lparr>role = r, content = c, tool_calls = None, tool_call_id = None\<rparr>]"
    and "length (messages (add_message s r c None now)) = 21"
  using assms by (simp_all add: add_message_messages Let_def nth_append)

theorem C5_witness:
  "[] \<notin> dom example_store
   \<and> fst (get_or_create_session example_store ''alice'' (Some ''session-1'') ''session-2'' 5) = alice_session
   \<and> fst (get_or_create_session example_store ''mallory'' (Some ''session-1'') ''session-2'' 5)
        = new_ChatSession ''session-2'' ''mallory'' 5
   \<and> fst (get_or_create_session example_store ''alice'' (Some ''session-1'') ''session-2'' (hours 24 + 1))
        = new_ChatSession ''session-2'' ''alice'' (hours 24 + 1)
   \<and> fst (get_or_create_session example_store ''alice'' None ''session-2'' 5)
        = new_ChatSession ''session-2'' ''alice'' 5"
proof -
  have d: "[] \<notin> dom example_store" by (simp add: example_store_def)
  have a: "fst (get_or_create_session example_store ''alice'' (Some ''session-1'') ''session-2'' 5) = alice_session"
    using C5_get_or_create_session
            [OF d, where sid = "Some ''session-1''" and new_id = "''session-2''"
               and uid = "''alice''" and now = 5]
    by (simp add: example_store_def alice_session_def is_expired_def hours_def)
  have b: "fst (get_or_create_session example_store ''mallory'' (Some ''session-1'') ''session-2'' 5)
        = new_ChatSession ''session-2'' ''mallory'' 5"
    using C5_get_or_create_session
            [OF d, where sid = "Some ''session-1''" and new_id = "''session-2''"
               and uid = "''mallory''" and now = 5]
    by (simp add: example_store_def alice_session_def is_expired_def hours_def)
  have c: "fst (get_or_create_session example_store ''alice'' (Some ''session-1'') ''session-2'' (hours 24 + 1))
        = new_ChatSession ''session-2'' ''alice'' (hours 24 + 1)"
    using C5_get_or_create_session
            [OF d, where sid = "Some ''session-1''" and new_id = "''session-2''"
               and uid = "''alice''" and now = "hours 24 + 1"]
    by (simp add: example_store_def alice_session_def is_expired_def hours_def)
  have n: "fst (get_or_create_session example_store ''alice'' None ''session-2'' 5)
        = new_ChatSession ''session-2'' ''alice'' 5"
    using C5_get_or_create_session
            [OF d, where sid = None and new_id = "''session-2''" and uid = "''alice''" and now = 5]
    by simp
  show ?thesis by (intro conjI d a b c n)
qed










end
